theory Spec2Isabelle
  imports Complex_Main "HOL-Library.Char_ord" "HOL-Library.List_Lexorder"
begin

section \<open>Python values used by the engine\<close>

text \<open>
  The exceptions the core raises or lets through. \<open>OSError\<close> stands for a failed write
  of the registry file, of a backup or of an environment file; \<open>ValueError\<close> also
  stands for its subclass raised by \<open>json.load\<close> on a file that is no document.
\<close>

datatype error =
    ProjectExistsError
  | ProjectNotFoundError
  | InvalidPathError
  | PortExhaustedError
  | ValueError
  | OverflowError
  | ZeroDivisionError
  | OSError
  | PM2Error

subsection \<open>\<open>str\<close> and \<open>int\<close> on decimal numerals\<close>

definition digit_char :: "nat \<Rightarrow> char" where
  "digit_char d = ''0123456789'' ! d"

function str_nat :: "nat \<Rightarrow> string" where
  "str_nat n = (if n < 10 then [digit_char n] else str_nat (n div 10) @ [digit_char (n mod 10)])"
  by pat_completeness auto
termination
  by (relation "measure (\<lambda>n. n)") auto

declare str_nat.simps [simp del]

text \<open>
  Python's \<open>str\<close> on an integer: decimal digits, a leading minus sign when negative.
  (The interpreter's optional limit on the number of digits of such a conversion is not
  modelled.)
\<close>

definition py_str :: "int \<Rightarrow> string" where
  "py_str i = (if i < 0 then CHR ''-'' # str_nat (nat (- i)) else str_nat (nat i))"

definition is_digit :: "char \<Rightarrow> bool" where
  "is_digit c = (CHR ''0'' \<le> c \<and> c \<le> CHR ''9'')"

text \<open>
  The characters \<open>int\<close> strips from both ends of its argument: the ASCII white space,
  the separators \<open>0x1C\<close> to \<open>0x1F\<close>, and the two white-space characters of the
  Latin-1 block.
\<close>

definition is_space :: "char \<Rightarrow> bool" where
  "is_space c = (c \<in> set [CHR 0x09, CHR 0x0A, CHR 0x0B, CHR 0x0C, CHR 0x0D, CHR 0x1C, CHR 0x1D,
                         CHR 0x1E, CHR 0x1F, CHR 0x20, CHR 0x85, CHR 0xA0])"

definition strip :: "string \<Rightarrow> string" where
  "strip s = rev (dropWhile is_space (rev (dropWhile is_space s)))"

text \<open>
  The digits of a numeral as \<open>int\<close> accepts them: decimal digits, with single
  underscores allowed between two digits.
\<close>

fun digits_ok :: "string \<Rightarrow> bool" where
  "digits_ok [] = False"
| "digits_ok [c] = is_digit c"
| "digits_ok (c # d # r) =
     (is_digit c \<and> (if d = CHR ''_'' then digits_ok r else digits_ok (d # r)))"

definition digits_value :: "string \<Rightarrow> nat" where
  "digits_value ds = foldl (\<lambda>acc c. 10 * acc + (of_char c - 48)) 0 ds"

text \<open>
  Python's \<open>int\<close> on a string (base ten): white space around, an optional sign, then
  the digits. Any other string raises \<open>ValueError\<close>, the value \<open>None\<close> here.
\<close>

definition py_int :: "string \<Rightarrow> int option" where
  "py_int s =
     (let t = strip s;
          body = (case t of c # r \<Rightarrow> (if c = CHR ''-'' \<or> c = CHR ''+'' then r else t) | [] \<Rightarrow> t);
          neg = (case t of c # r \<Rightarrow> c = CHR ''-'' | [] \<Rightarrow> False);
          v = int (digits_value (filter (\<lambda>c. c \<noteq> CHR ''_'') body))
      in if digits_ok body then Some (if neg then - v else v) else None)"

subsection \<open>Dictionaries in insertion order\<close>

text \<open>
  A Python \<open>dict\<close> iterates in insertion order, and the engine iterates over its
  dictionaries, so a dictionary is an association list. \<open>d[k] = v\<close> overwrites in
  place or appends, \<open>d.pop(k, None)\<close> and \<open>del d[k]\<close> remove the key.
\<close>

type_synonym ('k, 'v) dict = "('k \<times> 'v) list"

definition dict_keys :: "('k, 'v) dict \<Rightarrow> 'k list" where
  "dict_keys d = map fst d"

definition dict_values :: "('k, 'v) dict \<Rightarrow> 'v list" where
  "dict_values d = map snd d"

definition dict_contains :: "'k \<Rightarrow> ('k, 'v) dict \<Rightarrow> bool" where
  "dict_contains k d = (k \<in> set (dict_keys d))"

definition dict_get :: "'k \<Rightarrow> ('k, 'v) dict \<Rightarrow> 'v option" where
  "dict_get k d = map_of d k"

fun dict_set :: "'k \<Rightarrow> 'v \<Rightarrow> ('k, 'v) dict \<Rightarrow> ('k, 'v) dict" where
  "dict_set k v [] = [(k, v)]"
| "dict_set k v (kv # d) = (if fst kv = k then (k, v) # d else kv # dict_set k v d)"

definition dict_pop :: "'k \<Rightarrow> ('k, 'v) dict \<Rightarrow> ('k, 'v) dict" where
  "dict_pop k d = filter (\<lambda>kv. fst kv \<noteq> k) d"

subsection \<open>Strings\<close>

definition is_lower :: "char \<Rightarrow> bool" where
  "is_lower c = (CHR ''a'' \<le> c \<and> c \<le> CHR ''z'')"

definition is_upper :: "char \<Rightarrow> bool" where
  "is_upper c = (CHR ''A'' \<le> c \<and> c \<le> CHR ''Z'')"

definition to_upper :: "char \<Rightarrow> char" where
  "to_upper c =
     (case map_of (zip ''abcdefghijklmnopqrstuvwxyz'' ''ABCDEFGHIJKLMNOPQRSTUVWXYZ'') c of
        Some u \<Rightarrow> u
      | None \<Rightarrow> c)"

definition to_lower :: "char \<Rightarrow> char" where
  "to_lower c =
     (case map_of (zip ''ABCDEFGHIJKLMNOPQRSTUVWXYZ'' ''abcdefghijklmnopqrstuvwxyz'') c of
        Some l \<Rightarrow> l
      | None \<Rightarrow> c)"

text \<open>\<open>str.lower\<close> and \<open>str.title\<close>, on ASCII letters.\<close>

definition py_lower :: "string \<Rightarrow> string" where
  "py_lower s = map to_lower s"

fun title_from :: "bool \<Rightarrow> string \<Rightarrow> string" where
  "title_from prev_cased [] = []"
| "title_from prev_cased (c # cs) =
     (if is_lower c \<or> is_upper c
      then (if prev_cased then to_lower c else to_upper c) # title_from True cs
      else c # title_from False cs)"

definition py_title :: "string \<Rightarrow> string" where
  "py_title s = title_from False s"

text \<open>Python's \<open>q in s\<close> on strings: \<open>q\<close> occurs in \<open>s\<close> as a contiguous piece.\<close>

fun str_in :: "string \<Rightarrow> string \<Rightarrow> bool" where
  "str_in q [] = (q = [])"
| "str_in q (c # cs) = (take (length q) (c # cs) = q \<or> str_in q cs)"

text \<open>Python truthiness of an optional string and of an optional port.\<close>

definition truthy_str :: "string option \<Rightarrow> bool" where
  "truthy_str x = (x \<noteq> None \<and> x \<noteq> Some [])"

definition truthy_port :: "int option \<Rightarrow> bool" where
  "truthy_port x = (x \<noteq> None \<and> x \<noteq> Some 0)"

section \<open>Data model (models.py)\<close>

record HealthCheck =
  hc_path :: string
  hc_timeout :: int

record ServiceConfig =
  enabled :: bool
  port :: "int option"
  command :: string
  cwd :: "string option"
  env :: "(string, string) dict"
  health_check :: "HealthCheck option"

record Project =
  name :: string
  path :: string
  display_name :: "string option"
  description :: "string option"
  frontend :: "ServiceConfig option"
  backend :: "ServiceConfig option"
  env_vars :: "(string, string) dict"
  dependencies :: "string list"
  tags :: "string list"
  created_at :: string
  updated_at :: string
  project_notes :: "string option"

record PortRange =
  range_start :: int
  range_end :: int
  reserved :: "int list"

record PortAllocation =
  frontend_range :: PortRange
  backend_range :: PortRange
  allocated :: "(string, string) dict"

record Settings =
  auto_generate_env :: bool
  env_file_name :: string
  pm2_ecosystem_path :: string
  log_retention_days :: int
  health_check_interval :: int
  dashboard_port :: int
  default_tags :: "string list"

record Metadata =
  md_created_at :: string
  last_modified :: string
  last_modified_by :: string
  total_projects :: int
  active_projects :: int

record Registry =
  version :: string
  projects :: "(string, Project) dict"
  port_allocation :: PortAllocation
  settings :: Settings
  metadata :: Metadata

subsection \<open>\<open>Project.__post_init__\<close>\<close>

definition name_char :: "char \<Rightarrow> bool" where
  "name_char c = (is_lower c \<or> is_digit c \<or> c = CHR ''-'')"

text \<open>
  \<open>re.match(r'^[a-z][a-z0-9-]*$', name)\<close>. In Python \<open>$\<close> also matches just before a
  newline that ends the string.
\<close>

definition name_matches :: "string \<Rightarrow> bool" where
  "name_matches s =
     (case s of
        [] \<Rightarrow> False
      | c # r \<Rightarrow>
          is_lower c \<and>
          (list_all name_char r \<or>
           (r \<noteq> [] \<and> last r = CHR 0x0A \<and> list_all name_char (butlast r))))"

definition default_display_name :: "string \<Rightarrow> string" where
  "default_display_name n = py_title (map (\<lambda>c. if c = CHR ''-'' then CHR '' '' else c) n)"

text \<open>
  \<open>__post_init__\<close>, which runs at the end of every construction of a \<open>Project\<close>: it
  rejects a name the pattern does not match and fills in a missing or empty display name.
\<close>

definition post_init :: "Project \<Rightarrow> error + Project" where
  "post_init p =
     (if \<not> name_matches (name p) then Inl ValueError
      else Inr (if truthy_str (display_name p) then p
                else p\<lparr>display_name := Some (default_display_name (name p))\<rparr>))"

section \<open>The environment and the state of the engine\<close>

datatype io_point = PortManagerWrite | BackupCopy | RegistryWrite | EnvFileWrite

text \<open>
  What writing a file can do: succeed, fail before the file is opened (the file is left
  as it was), or fail after \<open>open(path, "w")\<close> has truncated it.
\<close>

datatype write_outcome = Written | Fails_unopened | Fails_truncated

text \<open>
  What the engine reads from outside: whether the TCP probe of a port connects
  (\<open>port_listening\<close>), the file-system tests on a project path, the clock (as
  \<open>isoformat\<close> and as the backup stamp \<open>%Y%m%d_%H%M%S\<close>), what each file operation
  does, the order in which the interpreter iterates over a set of strings
  (\<open>set_order\<close>, applied to the elements as listed; it gives them without duplicates),
  and what \<open>hasattr\<close> answers on a project for a key that is no field of the dataclass
  (\<open>has_attribute\<close>; true for the methods and for names such as \<open>__dict__\<close> and
  \<open>__class__\<close>).
\<close>

record environment =
  port_listening :: "int \<Rightarrow> bool"
  path_exists :: "string \<Rightarrow> bool"
  path_is_dir :: "string \<Rightarrow> bool"
  path_absolute :: "string \<Rightarrow> string"
  now_iso :: string
  now_stamp :: string
  write_result :: "io_point \<Rightarrow> write_outcome"
  set_order :: "string list \<Rightarrow> string list"
  has_attribute :: "string \<Rightarrow> bool"

text \<open>
  A registry file or a backup of it: the document \<open>to_dict\<close> wrote, kept as the
  registry value that was written, or a file truncated by a failed write.
\<close>

datatype document = Intact Registry | Truncated

text \<open>
  The state: the registry object cached by the \<open>ProjectRegistry\<close> manager
  (\<open>_registry\<close>), the one cached by its \<open>PortManager\<close> (a second object, loaded
  separately from the same file), the registry file, the backup directory and the
  generated environment files.
\<close>

record state =
  pr_registry :: "Registry option"
  pm_registry :: "Registry option"
  registry_file :: "document option"
  backup_files :: "(string, document) dict"
  env_files :: "(string \<times> string, string list) dict"

definition default_port_allocation :: PortAllocation where
  "default_port_allocation =
     \<lparr>frontend_range = \<lparr>range_start = 3000, range_end = 3099, reserved = [3000]\<rparr>,
      backend_range = \<lparr>range_start = 8000, range_end = 8099, reserved = [8501]\<rparr>,
      allocated = []\<rparr>"

definition default_settings :: Settings where
  "default_settings =
     \<lparr>auto_generate_env = True, env_file_name = ''.env.local'',
      pm2_ecosystem_path = ''./ecosystem.config.js'', log_retention_days = 7,
      health_check_interval = 60, dashboard_port = 8501, default_tags = [''local'']\<rparr>"

definition default_registry :: "environment \<Rightarrow> Registry" where
  "default_registry e =
     \<lparr>version = ''1.0.0'', projects = [], port_allocation = default_port_allocation,
      settings = default_settings,
      metadata = \<lparr>md_created_at = now_iso e, last_modified = now_iso e,
                  last_modified_by = ''system'', total_projects = 0, active_projects = 0\<rparr>\<rparr>"

text \<open>
  The loop of \<open>ProjectRegistry.from_dict\<close> over the stored projects: each is built
  again by \<open>Project.from_dict\<close>, so \<open>__post_init__\<close> runs on it and the first stored
  name the pattern rejects raises.
\<close>

fun rebuild_projects :: "(string, Project) dict \<Rightarrow> error + (string, Project) dict" where
  "rebuild_projects [] = Inr []"
| "rebuild_projects ((k, p) # rest) =
     (case post_init p of
        Inl err \<Rightarrow> Inl err
      | Inr p' \<Rightarrow>
          (case rebuild_projects rest of
             Inl err \<Rightarrow> Inl err
           | Inr rest' \<Rightarrow> Inr ((k, p') # rest')))"

definition from_dict :: "Registry \<Rightarrow> error + Registry" where
  "from_dict doc =
     (case rebuild_projects (projects doc) of
        Inl err \<Rightarrow> Inl err
      | Inr ps \<Rightarrow> Inr (doc\<lparr>projects := ps\<rparr>))"

text \<open>
  \<open>ProjectRegistry.load\<close>: a missing file gives the default registry, a truncated
  file makes \<open>json.load\<close> raise, and a document is rebuilt by \<open>from_dict\<close>.
\<close>

definition load :: "environment \<Rightarrow> document option \<Rightarrow> error + Registry" where
  "load e file =
     (case file of
        None \<Rightarrow> Inr (default_registry e)
      | Some Truncated \<Rightarrow> Inl ValueError
      | Some (Intact doc) \<Rightarrow> from_dict doc)"

text \<open>
  \<open>ProjectRegistry.save\<close> of the model, which both managers call to write the
  registry file.
\<close>

definition write_registry :: "environment \<Rightarrow> io_point \<Rightarrow> Registry \<Rightarrow> state \<Rightarrow> error option \<times> state" where
  "write_registry e pt reg s =
     (case write_result e pt of
        Written \<Rightarrow> (None, s\<lparr>registry_file := Some (Intact reg)\<rparr>)
      | Fails_unopened \<Rightarrow> (Some OSError, s)
      | Fails_truncated \<Rightarrow> (Some OSError, s\<lparr>registry_file := Some Truncated\<rparr>))"

section \<open>Port manager (port\_manager.py)\<close>

text \<open>
  The lazy \<open>registry\<close> property of the port manager: the cached object, or a load of
  the file, which may raise and then caches nothing.
\<close>

definition pm_get :: "environment \<Rightarrow> state \<Rightarrow> error + (Registry \<times> state)" where
  "pm_get e s =
     (case pm_registry s of
        Some r \<Rightarrow> Inr (r, s)
      | None \<Rightarrow>
          (case load e (registry_file s) of
             Inl err \<Rightarrow> Inl err
           | Inr r \<Rightarrow> Inr (r, s\<lparr>pm_registry := Some r\<rparr>)))"

text \<open>
  The registry the port manager holds or would load. Where the file does not load there
  is no registry to look at; the view is then the default registry.
\<close>

definition pm_view :: "environment \<Rightarrow> state \<Rightarrow> Registry" where
  "pm_view e s = (case pm_get e s of Inr (r, s') \<Rightarrow> r | Inl err \<Rightarrow> default_registry e)"

definition allocated_of :: "Registry \<Rightarrow> (string, string) dict" where
  "allocated_of reg = allocated (port_allocation reg)"

definition with_allocated :: "(string, string) dict \<Rightarrow> Registry \<Rightarrow> Registry" where
  "with_allocated a reg = reg\<lparr>port_allocation := (port_allocation reg)\<lparr>allocated := a\<rparr>\<rparr>"

text \<open>
  \<open>is_port_in_use\<close>: \<open>connect_ex\<close> raises \<open>OverflowError\<close> for a port outside
  \<open>0..65535\<close>; otherwise the port is in use when the probe connects.
\<close>

definition is_port_in_use :: "environment \<Rightarrow> int \<Rightarrow> error + bool" where
  "is_port_in_use e p = (if p < 0 \<or> 65535 < p then Inl OverflowError else Inr (port_listening e p))"

definition is_port_allocated :: "Registry \<Rightarrow> int \<Rightarrow> string option" where
  "is_port_allocated reg p = dict_get (py_str p) (allocated_of reg)"

definition is_port_reserved :: "Registry \<Rightarrow> int \<Rightarrow> bool" where
  "is_port_reserved reg p =
     (p \<in> set (reserved (frontend_range (port_allocation reg))) \<or>
      p \<in> set (reserved (backend_range (port_allocation reg))))"

text \<open>The body of the \<open>for port in range(start, end + 1)\<close> loop, on the ports left.\<close>

fun scan_ports :: "environment \<Rightarrow> Registry \<Rightarrow> int list \<Rightarrow> int list \<Rightarrow> error + int option" where
  "scan_ports e reg exclude [] = Inr None"
| "scan_ports e reg exclude (p # rest) =
     (if p \<in> set exclude then scan_ports e reg exclude rest
      else if is_port_reserved reg p then scan_ports e reg exclude rest
      else if dict_contains (py_str p) (allocated_of reg) then scan_ports e reg exclude rest
      else (case is_port_in_use e p of
              Inl err \<Rightarrow> Inl err
            | Inr in_use \<Rightarrow> if in_use then scan_ports e reg exclude rest else Inr (Some p)))"

definition find_available_port ::
    "environment \<Rightarrow> Registry \<Rightarrow> int \<Rightarrow> int \<Rightarrow> int list \<Rightarrow> error + int option" where
  "find_available_port e reg start end' exclude = scan_ports e reg exclude [start..end']"

definition find_available_frontend_port ::
    "environment \<Rightarrow> Registry \<Rightarrow> int list \<Rightarrow> error + int option" where
  "find_available_frontend_port e reg exclude =
     find_available_port e reg (range_start (frontend_range (port_allocation reg)))
       (range_end (frontend_range (port_allocation reg))) exclude"

definition find_available_backend_port ::
    "environment \<Rightarrow> Registry \<Rightarrow> int list \<Rightarrow> error + int option" where
  "find_available_backend_port e reg exclude =
     find_available_port e reg (range_start (backend_range (port_allocation reg)))
       (range_end (backend_range (port_allocation reg))) exclude"

text \<open>The result dictionary of \<open>allocate_ports\<close>: the keys "frontend" and "backend", each optional.\<close>

record ports_result =
  fe_port :: "int option"
  be_port :: "int option"

text \<open>The \<open>except\<close> clause: every port the call appended to \<open>allocated_ports\<close> is popped.\<close>

definition rollback :: "int list \<Rightarrow> Registry \<Rightarrow> Registry" where
  "rollback allocated_ports reg =
     fold (\<lambda>p r. with_allocated (dict_pop (py_str p) (allocated_of r)) r) allocated_ports reg"

definition grant :: "int \<Rightarrow> string \<Rightarrow> Registry \<Rightarrow> Registry" where
  "grant p project_name reg = with_allocated (dict_set (py_str p) project_name (allocated_of reg)) reg"

text \<open>
  One search of \<open>allocate_ports\<close> with what follows it inside the \<open>try\<close>: a search
  that raises and an exhausted range both leave the \<open>try\<close> with the ports granted so
  far; a found port is put on \<open>allocated_ports\<close> and recorded in \<open>allocated\<close>.
\<close>

definition grant_step ::
    "error + int option \<Rightarrow> string \<Rightarrow> int list \<Rightarrow> Registry \<Rightarrow>
     (error \<times> int list \<times> Registry) + (int option \<times> int list \<times> Registry)" where
  "grant_step found project_name ports reg =
     (case found of
        Inl err \<Rightarrow> Inl (err, ports, reg)
      | Inr None \<Rightarrow> Inl (PortExhaustedError, ports, reg)
      | Inr (Some p) \<Rightarrow> Inr (Some p, ports @ [p], grant p project_name reg))"

text \<open>
  \<open>PortManager.allocate_ports\<close>. Every path reads \<open>self.registry\<close> first inside the
  \<open>try\<close> (in a search or in \<open>save\<close>); when that load raises, nothing was granted and
  the \<open>except\<close> clause re-raises. The value is the outcome and the state left behind,
  also when the call raises.
\<close>

definition allocate_ports ::
    "environment \<Rightarrow> string \<Rightarrow> bool \<Rightarrow> bool \<Rightarrow> state \<Rightarrow> (error + ports_result) \<times> state" where
  "allocate_ports e project_name need_frontend need_backend s0 =
     (case pm_get e s0 of
        Inl err \<Rightarrow> (Inl err, s0)
      | Inr (reg0, s) \<Rightarrow>
         (let fe_step =
            (if need_frontend
             then grant_step (find_available_frontend_port e reg0 []) project_name [] reg0
             else Inr (None, [], reg0))
          in case fe_step of
               Inl (err, ports, reg) \<Rightarrow> (Inl err, s\<lparr>pm_registry := Some (rollback ports reg)\<rparr>)
             | Inr (fe, ports1, reg1) \<Rightarrow>
                (let be_step =
                   (if need_backend
                    then grant_step (find_available_backend_port e reg1 []) project_name ports1 reg1
                    else Inr (None, ports1, reg1))
                 in case be_step of
                      Inl (err, ports, reg) \<Rightarrow> (Inl err, s\<lparr>pm_registry := Some (rollback ports reg)\<rparr>)
                    | Inr (be, ports2, reg2) \<Rightarrow>
                        (case write_registry e PortManagerWrite reg2 (s\<lparr>pm_registry := Some reg2\<rparr>) of
                           (Some err, s') \<Rightarrow> (Inl err, s'\<lparr>pm_registry := Some (rollback ports2 reg2)\<rparr>)
                         | (None, s') \<Rightarrow> (Inr \<lparr>fe_port = fe, be_port = be\<rparr>, s')))))"

text \<open>
  The loop of \<open>release_ports\<close> over \<open>ports_to_release\<close>: \<open>del allocated[port]\<close>, then
  \<open>released.append(int(port))\<close>, which raises on a key that is no numeral, after the
  deletion.
\<close>

fun release_loop ::
    "string list \<Rightarrow> (string, string) dict \<Rightarrow> int list \<Rightarrow> error option \<times> (string, string) dict \<times> int list" where
  "release_loop [] a released = (None, a, released)"
| "release_loop (k # ks) a released =
     (case py_int k of
        None \<Rightarrow> (Some ValueError, dict_pop k a, released)
      | Some p \<Rightarrow> release_loop ks (dict_pop k a) (released @ [p]))"

definition release_ports :: "environment \<Rightarrow> string \<Rightarrow> state \<Rightarrow> (error + int list) \<times> state" where
  "release_ports e project_name s0 =
     (case pm_get e s0 of
        Inl err \<Rightarrow> (Inl err, s0)
      | Inr (reg0, s) \<Rightarrow>
         (let ports_to_release = map fst (filter (\<lambda>kv. snd kv = project_name) (allocated_of reg0));
              (err, a, released) = release_loop ports_to_release (allocated_of reg0) [];
              reg1 = with_allocated a reg0
          in case err of
               Some x \<Rightarrow> (Inl x, s\<lparr>pm_registry := Some reg1\<rparr>)
             | None \<Rightarrow>
                 if released \<noteq> [] then
                   (case write_registry e PortManagerWrite reg1 (s\<lparr>pm_registry := Some reg1\<rparr>) of
                      (Some x, s') \<Rightarrow> (Inl x, s')
                    | (None, s') \<Rightarrow> (Inr released, s'))
                 else (Inr released, s\<lparr>pm_registry := Some reg1\<rparr>)))"






section \<open>Project registry manager (project\_registry.py)\<close>

text \<open>The lazy \<open>registry\<close> property of the manager, as that of the port manager.\<close>

definition pr_get :: "environment \<Rightarrow> state \<Rightarrow> error + (Registry \<times> state)" where
  "pr_get e s =
     (case pr_registry s of
        Some r \<Rightarrow> Inr (r, s)
      | None \<Rightarrow>
          (case load e (registry_file s) of
             Inl err \<Rightarrow> Inl err
           | Inr r \<Rightarrow> Inr (r, s\<lparr>pr_registry := Some r\<rparr>)))"

text \<open>
  The registry the manager holds or would load; the default registry where the file does
  not load.
\<close>

definition pr_view :: "environment \<Rightarrow> state \<Rightarrow> Registry" where
  "pr_view e s = (case pr_get e s of Inr (r, s') \<Rightarrow> r | Inl err \<Rightarrow> default_registry e)"

definition backup_name :: "environment \<Rightarrow> string" where
  "backup_name e = ''projects_'' @ now_stamp e @ ''.json''"

text \<open>The names \<open>glob("projects_*.json")\<close> yields.\<close>

definition is_backup_name :: "string \<Rightarrow> bool" where
  "is_backup_name n =
     (14 \<le> length n \<and> take 9 n = ''projects_'' \<and> drop (length n - 5) n = ''.json'')"

definition listed_backups :: "(string, document) dict \<Rightarrow> string list" where
  "listed_backups dir = sort (filter is_backup_name (dict_keys dir))"

text \<open>
  \<open>_create_backup\<close>: nothing when the registry file does not exist; otherwise the file
  is copied under the stamped name and all but the last ten of the sorted backups are
  unlinked. A failed copy raises, leaving a truncated backup when it had begun.
\<close>

definition create_backup :: "environment \<Rightarrow> state \<Rightarrow> error option \<times> state" where
  "create_backup e s =
     (case registry_file s of
        None \<Rightarrow> (None, s)
      | Some doc \<Rightarrow>
          (case write_result e BackupCopy of
             Fails_unopened \<Rightarrow> (Some OSError, s)
           | Fails_truncated \<Rightarrow>
               (Some OSError, s\<lparr>backup_files := dict_set (backup_name e) Truncated (backup_files s)\<rparr>)
           | Written \<Rightarrow>
               (let dir1 = dict_set (backup_name e) doc (backup_files s);
                    backups = listed_backups dir1;
                    dir2 = fold dict_pop (take (length backups - 10) backups) dir1
                in (None, s\<lparr>backup_files := dir2\<rparr>))))"

definition touch_metadata :: "environment \<Rightarrow> string \<Rightarrow> Registry \<Rightarrow> Registry" where
  "touch_metadata e modified_by reg =
     reg\<lparr>metadata := (metadata reg)\<lparr>last_modified := now_iso e, last_modified_by := modified_by,
                                       total_projects := int (length (projects reg))\<rparr>\<rparr>"

text \<open>
  \<open>ProjectRegistry.save\<close> of the manager, on the manager's registry \<open>reg\<close>: metadata,
  backup, then the write. The metadata change stays in memory when a later step raises.
\<close>

definition pr_save :: "environment \<Rightarrow> string \<Rightarrow> Registry \<Rightarrow> state \<Rightarrow> error option \<times> state" where
  "pr_save e modified_by reg s =
     (let reg1 = touch_metadata e modified_by reg;
          s1 = s\<lparr>pr_registry := Some reg1\<rparr>
      in case create_backup e s1 of
           (Some err, s2) \<Rightarrow> (Some err, s2)
         | (None, s2) \<Rightarrow> write_registry e RegistryWrite reg1 s2)"

record register_args =
  arg_name :: string
  arg_path :: string
  arg_display_name :: "string option"
  arg_description :: "string option"
  frontend_command :: "string option"
  backend_command :: "string option"
  frontend_cwd :: "string option"
  backend_cwd :: "string option"
  arg_env_vars :: "(string, string) dict option"
  arg_tags :: "string list option"
  auto_allocate_ports :: bool

definition service_for :: "string option \<Rightarrow> int option \<Rightarrow> string option \<Rightarrow> ServiceConfig option" where
  "service_for cmd p wd =
     (case cmd of
        None \<Rightarrow> None
      | Some c \<Rightarrow>
          if c = [] then None
          else Some \<lparr>enabled = True, port = p, command = c, cwd = wd, env = [], health_check = None\<rparr>)"

text \<open>The constructor \<open>Project(...)\<close> as \<open>register_project\<close> calls it.\<close>

definition new_project ::
    "environment \<Rightarrow> string \<Rightarrow> string \<Rightarrow> string option \<Rightarrow> string option \<Rightarrow> ServiceConfig option \<Rightarrow>
     ServiceConfig option \<Rightarrow> (string, string) dict \<Rightarrow> string list \<Rightarrow> error + Project" where
  "new_project e n p dn descr fe be evs tgs =
     post_init \<lparr>name = n, path = p, display_name = dn, description = descr, frontend = fe,
                backend = be, env_vars = evs, dependencies = [], tags = tgs,
                created_at = now_iso e, updated_at = now_iso e, project_notes = None\<rparr>"

definition port_lines :: "string list \<Rightarrow> ServiceConfig option \<Rightarrow> string list" where
  "port_lines keys svc =
     (case svc of
        None \<Rightarrow> []
      | Some c \<Rightarrow>
          (case port c of
             None \<Rightarrow> []
           | Some p \<Rightarrow> if p = 0 then [] else map (\<lambda>k. k @ py_str p) keys))"

definition env_file_lines :: "Project \<Rightarrow> string list" where
  "env_file_lines project =
     [''# Auto-generated by Dev Orchestrator'',
      ''# Do not edit manually - changes may be overwritten'', []] @
     port_lines [''FRONTEND_PORT=''] (frontend project) @
     port_lines [''BACKEND_PORT='', ''API_URL=http://localhost:''] (backend project) @
     map (\<lambda>kv. fst kv @ ''='' @ snd kv) (env_vars project)"

definition generate_env_file :: "environment \<Rightarrow> Registry \<Rightarrow> Project \<Rightarrow> state \<Rightarrow> error option \<times> state" where
  "generate_env_file e reg project s =
     (case write_result e EnvFileWrite of
        Written \<Rightarrow>
          (None, s\<lparr>env_files :=
             dict_set (path project, env_file_name (settings reg)) (env_file_lines project) (env_files s)\<rparr>)
      | Fails_unopened \<Rightarrow> (Some OSError, s)
      | Fails_truncated \<Rightarrow>
          (Some OSError, s\<lparr>env_files :=
             dict_set (path project, env_file_name (settings reg)) [] (env_files s)\<rparr>))"

text \<open>
  The second half of \<open>register_project\<close>, from "Create service configs" on, given
  the manager's registry and the ports of the first half. The tag list is
  \<open>list(set(...))\<close>, in the order the interpreter iterates over the set.
\<close>

definition finish_registration ::
    "environment \<Rightarrow> register_args \<Rightarrow> Registry \<Rightarrow> ports_result \<Rightarrow> state \<Rightarrow> (error + Project) \<times> state" where
  "finish_registration e a reg pr s2 =
     (let fe = service_for (frontend_command a) (fe_port pr) (frontend_cwd a);
          be = service_for (backend_command a) (be_port pr) (backend_cwd a);
          project_tags =
            set_order e (default_tags (settings reg) @
                         (case arg_tags a of None \<Rightarrow> [] | Some t \<Rightarrow> t))
      in case new_project e (arg_name a) (path_absolute e (arg_path a))
                (arg_display_name a) (arg_description a) fe be
                (case arg_env_vars a of None \<Rightarrow> [] | Some v \<Rightarrow> v) project_tags of
           Inl err \<Rightarrow> (Inl err, s2)
         | Inr project \<Rightarrow>
            (let reg1 = reg\<lparr>projects := dict_set (arg_name a) project (projects reg)\<rparr>;
                 (failed, s3) = pr_save e ''register_project'' reg1 s2
             in case failed of
                  Some err \<Rightarrow> (Inl err, s3)
                | None \<Rightarrow>
                    if auto_generate_env (settings reg1)
                    then (case generate_env_file e reg1 project s3 of
                            (Some err, s4) \<Rightarrow> (Inl err, s4)
                          | (None, s4) \<Rightarrow> (Inr project, s4))
                    else (Inr project, s3)))"

text \<open>
  \<open>register_project\<close>: the checks on the name and the path, the allocation, then the
  second half.
\<close>

definition register_project :: "environment \<Rightarrow> register_args \<Rightarrow> state \<Rightarrow> (error + Project) \<times> state" where
  "register_project e a s0 =
     (case pr_get e s0 of
        Inl err \<Rightarrow> (Inl err, s0)
      | Inr (reg, s1) \<Rightarrow>
          if dict_contains (arg_name a) (projects reg) then (Inl ProjectExistsError, s1)
          else if \<not> path_exists e (arg_path a) then (Inl InvalidPathError, s1)
          else if \<not> path_is_dir e (arg_path a) then (Inl InvalidPathError, s1)
          else
            (let need_frontend = (frontend_command a \<noteq> None);
                 need_backend = (backend_command a \<noteq> None);
                 (ports, s2) =
                   (if auto_allocate_ports a \<and> (need_frontend \<or> need_backend)
                    then allocate_ports e (arg_name a) need_frontend need_backend s1
                    else (Inr \<lparr>fe_port = None, be_port = None\<rparr>, s1))
             in case ports of
                  Inl err \<Rightarrow> (Inl err, s2)
                | Inr pr \<Rightarrow> finish_registration e a reg pr s2))"

text \<open>
  One entry of the \<open>updates\<close> dictionary of \<open>update_project\<close>: a key that names a
  field of the dataclass with the value to store, or another key.
\<close>

datatype field_update =
    Set_name string
  | Set_path string
  | Set_display_name "string option"
  | Set_description "string option"
  | Set_frontend "ServiceConfig option"
  | Set_backend "ServiceConfig option"
  | Set_env_vars "(string, string) dict"
  | Set_dependencies "string list"
  | Set_tags "string list"
  | Set_created_at string
  | Set_updated_at string
  | Set_notes "string option"
  | Other_key string

fun update_key :: "field_update \<Rightarrow> string" where
  "update_key (Set_name v) = ''name''"
| "update_key (Set_path v) = ''path''"
| "update_key (Set_display_name v) = ''display_name''"
| "update_key (Set_description v) = ''description''"
| "update_key (Set_frontend v) = ''frontend''"
| "update_key (Set_backend v) = ''backend''"
| "update_key (Set_env_vars v) = ''env_vars''"
| "update_key (Set_dependencies v) = ''dependencies''"
| "update_key (Set_tags v) = ''tags''"
| "update_key (Set_created_at v) = ''created_at''"
| "update_key (Set_updated_at v) = ''updated_at''"
| "update_key (Set_notes v) = ''notes''"
| "update_key (Other_key k) = k"

definition field_names :: "string list" where
  "field_names =
     [''name'', ''path'', ''display_name'', ''description'', ''frontend'', ''backend'', ''env_vars'',
      ''dependencies'', ''tags'', ''created_at'', ''updated_at'', ''notes'']"

text \<open>
  \<open>if hasattr(project, key): setattr(project, key, value)\<close>. A key that names a
  field stores the value in the field. A key that is no field is ignored when
  \<open>hasattr\<close> is false. When it is true (a method, \<open>__dict__\<close>, \<open>__class__\<close>),
  \<open>setattr\<close> changes the object in a way the record of its fields does not express
  (assigning \<open>__dict__\<close> replaces every field at once): the value is then \<open>None\<close>,
  and nothing is stated of such a patch. The same holds for \<open>Other_key\<close> with the
  name of a field, which is written with the constructor of the field.
\<close>

fun apply_update :: "environment \<Rightarrow> field_update \<Rightarrow> Project \<Rightarrow> Project option" where
  "apply_update e (Set_name v) p = Some (p\<lparr>name := v\<rparr>)"
| "apply_update e (Set_path v) p = Some (p\<lparr>path := v\<rparr>)"
| "apply_update e (Set_display_name v) p = Some (p\<lparr>display_name := v\<rparr>)"
| "apply_update e (Set_description v) p = Some (p\<lparr>description := v\<rparr>)"
| "apply_update e (Set_frontend v) p = Some (p\<lparr>frontend := v\<rparr>)"
| "apply_update e (Set_backend v) p = Some (p\<lparr>backend := v\<rparr>)"
| "apply_update e (Set_env_vars v) p = Some (p\<lparr>env_vars := v\<rparr>)"
| "apply_update e (Set_dependencies v) p = Some (p\<lparr>dependencies := v\<rparr>)"
| "apply_update e (Set_tags v) p = Some (p\<lparr>tags := v\<rparr>)"
| "apply_update e (Set_created_at v) p = Some (p\<lparr>created_at := v\<rparr>)"
| "apply_update e (Set_updated_at v) p = Some (p\<lparr>updated_at := v\<rparr>)"
| "apply_update e (Set_notes v) p = Some (p\<lparr>project_notes := v\<rparr>)"
| "apply_update e (Other_key k) p =
     (if k \<in> set field_names \<or> has_attribute e k then None else Some p)"

text \<open>The loop \<open>for key, value in updates.items()\<close>.\<close>

fun apply_updates :: "environment \<Rightarrow> field_update list \<Rightarrow> Project \<Rightarrow> Project option" where
  "apply_updates e [] p = Some p"
| "apply_updates e (u # us) p =
     (case apply_update e u p of None \<Rightarrow> None | Some p' \<Rightarrow> apply_updates e us p')"

definition get_project :: "Registry \<Rightarrow> string \<Rightarrow> Project option" where
  "get_project reg n = dict_get n (projects reg)"

text \<open>
  \<open>update_project\<close>: the project object is mutated in place, so the entry stored under
  the key \<open>name\<close> of the projects dictionary changes and the key does not. The value
  is \<open>None\<close> for a patch with a key of which \<open>apply_update\<close> states nothing.
\<close>

definition update_project ::
    "environment \<Rightarrow> string \<Rightarrow> field_update list \<Rightarrow> state \<Rightarrow> ((error + Project) \<times> state) option" where
  "update_project e n updates s0 =
     (case pr_get e s0 of
        Inl err \<Rightarrow> Some (Inl err, s0)
      | Inr (reg, s1) \<Rightarrow>
          (case get_project reg n of
             None \<Rightarrow> Some (Inl ProjectNotFoundError, s1)
           | Some project \<Rightarrow>
               (case apply_updates e updates project of
                  None \<Rightarrow> None
                | Some project1 \<Rightarrow>
                    (let project2 = project1\<lparr>updated_at := now_iso e\<rparr>;
                         reg1 = reg\<lparr>projects := dict_set n project2 (projects reg)\<rparr>;
                         (failed, s2) = pr_save e ''update_project'' reg1 s1
                     in case failed of
                          Some err \<Rightarrow> Some (Inl err, s2)
                        | None \<Rightarrow> Some (Inr project2, s2)))))"

definition remove_project :: "environment \<Rightarrow> string \<Rightarrow> bool \<Rightarrow> state \<Rightarrow> (error + bool) \<times> state" where
  "remove_project e n release s0 =
     (case pr_get e s0 of
        Inl err \<Rightarrow> (Inl err, s0)
      | Inr (reg, s1) \<Rightarrow>
          if \<not> dict_contains n (projects reg) then (Inl ProjectNotFoundError, s1)
          else
            (let (released, s2) = (if release then release_ports e n s1 else (Inr [], s1))
             in case released of
                  Inl err \<Rightarrow> (Inl err, s2)
                | Inr ports \<Rightarrow>
                   (let reg1 = reg\<lparr>projects := dict_pop n (projects reg)\<rparr>;
                        (failed, s3) = pr_save e ''remove_project'' reg1 s2
                    in case failed of
                         Some err \<Rightarrow> (Inl err, s3)
                       | None \<Rightarrow> (Inr True, s3))))"

definition list_projects :: "Registry \<Rightarrow> string list option \<Rightarrow> Project list" where
  "list_projects reg filter_tags =
     (case filter_tags of
        None \<Rightarrow> dict_values (projects reg)
      | Some ts \<Rightarrow>
          if ts = [] then dict_values (projects reg)
          else filter (\<lambda>p. list_ex (\<lambda>t. t \<in> set (tags p)) ts) (dict_values (projects reg)))"

text \<open>The test \<open>search_projects\<close> makes on one project, in the order of the source.\<close>

definition project_matches :: "string \<Rightarrow> Project \<Rightarrow> bool" where
  "project_matches query p =
     (if str_in query (py_lower (name p)) then True
      else if truthy_str (display_name p) \<and> str_in query (py_lower (the (display_name p))) then True
      else if list_ex (\<lambda>t. str_in query (py_lower t)) (tags p) then True
      else truthy_str (description p) \<and> str_in query (py_lower (the (description p))))"

definition search_projects :: "Registry \<Rightarrow> string \<Rightarrow> Project list" where
  "search_projects reg query =
     filter (project_matches (py_lower query)) (dict_values (projects reg))"

section \<open>Status reconciler (process\_controller.py)\<close>

datatype service_state = Online | Stopped | Errored | Not_started

datatype overall_state = Running | All_stopped | Partial | Error_state

text \<open>
  One job of the supervisor's \<open>jlist\<close>: its name, \<open>pm2_env.status\<close>, the pid and
  \<open>pm2_env.pm_uptime\<close>. The memory and CPU figures of \<open>monit\<close> are floating point
  and left out.
\<close>

record pm2_proc =
  proc_name :: "string option"
  proc_status :: "string option"
  proc_pid :: "int option"
  pm_uptime :: "int option"

text \<open>
  What one run of \<open>pm2 jlist\<close> can do: time out or be missing (\<open>PM2Error\<close>), exit with
  a non-zero code, print something that is no JSON, or print the job list.
\<close>

datatype jlist_outcome = Pm2_unavailable | Pm2_exit_nonzero | Pm2_bad_json | Pm2_jobs "pm2_proc list"

definition get_pm2_list :: "jlist_outcome \<Rightarrow> error + pm2_proc list" where
  "get_pm2_list out =
     (case out of
        Pm2_unavailable \<Rightarrow> Inl PM2Error
      | Pm2_exit_nonzero \<Rightarrow> Inr []
      | Pm2_bad_json \<Rightarrow> Inr []
      | Pm2_jobs ps \<Rightarrow> Inr ps)"

definition get_pm2_process :: "jlist_outcome \<Rightarrow> string \<Rightarrow> error + pm2_proc option" where
  "get_pm2_process out n =
     (case get_pm2_list out of
        Inl err \<Rightarrow> Inl err
      | Inr ps \<Rightarrow> Inr (List.find (\<lambda>p. proc_name p = Some n) ps))"

definition format_uptime :: "int option \<Rightarrow> string option" where
  "format_uptime uptime_ms =
     (case uptime_ms of
        None \<Rightarrow> None
      | Some ms \<Rightarrow>
          (let seconds = ms div 1000 in
           if seconds < 60 then Some (py_str seconds @ ''s'')
           else let minutes = seconds div 60 in
           if minutes < 60 then Some (py_str minutes @ ''m'')
           else let hours = minutes div 60 in
           if hours < 24 then Some (py_str hours @ ''h '' @ py_str (minutes mod 60) @ ''m'')
           else Some (py_str (hours div 24) @ ''d '' @ py_str (hours mod 24) @ ''h'')))"

record ServiceStatus =
  service_name :: string
  status :: service_state
  pid :: "int option"
  service_port :: "int option"
  uptime :: "string option"
  url :: "string option"

record ProjectStatus =
  status_name :: string
  status_display_name :: string
  frontend_status :: "ServiceStatus option"
  backend_status :: "ServiceStatus option"
  overall_status :: overall_state

definition service_url :: "int option \<Rightarrow> string option" where
  "service_url p = (if truthy_port p then Some (''http://localhost:'' @ py_str (the p)) else None)"

definition get_service_status :: "jlist_outcome \<Rightarrow> string \<Rightarrow> int option \<Rightarrow> error + ServiceStatus" where
  "get_service_status out pm2_name p =
     (case get_pm2_process out pm2_name of
        Inl err \<Rightarrow> Inl err
      | Inr None \<Rightarrow>
          Inr \<lparr>service_name = pm2_name, status = Not_started, pid = None, service_port = p,
               uptime = None, url = service_url p\<rparr>
      | Inr (Some proc) \<Rightarrow>
          Inr \<lparr>service_name = pm2_name,
               status = (if proc_status proc = Some ''online'' then Online
                         else if proc_status proc = Some ''stopped'' then Stopped
                         else Errored),
               pid = proc_pid proc, service_port = p,
               uptime = format_uptime (pm_uptime proc), url = service_url p\<rparr>)"

text \<open>The \<open>if\<close>/\<open>elif\<close> chain that determines the overall status from the list \<open>statuses\<close>.\<close>

definition overall_of :: "service_state list \<Rightarrow> overall_state" where
  "overall_of statuses =
     (if statuses = [] then All_stopped
      else if list_all (\<lambda>s. s = Online) statuses then Running
      else if list_all (\<lambda>s. s \<in> set [Stopped, Not_started]) statuses then All_stopped
      else if list_ex (\<lambda>s. s = Errored) statuses then Error_state
      else Partial)"

definition service_if_enabled ::
    "jlist_outcome \<Rightarrow> string \<Rightarrow> ServiceConfig option \<Rightarrow> error + ServiceStatus option" where
  "service_if_enabled out pm2_name svc =
     (case svc of
        None \<Rightarrow> Inr None
      | Some c \<Rightarrow>
          if enabled c
          then (case get_service_status out pm2_name (port c) of
                  Inl err \<Rightarrow> Inl err
                | Inr st \<Rightarrow> Inr (Some st))
          else Inr None)"

definition present_statuses :: "ServiceStatus option \<Rightarrow> ServiceStatus option \<Rightarrow> service_state list" where
  "present_statuses fs bs =
     (case fs of None \<Rightarrow> [] | Some f \<Rightarrow> [status f]) @ (case bs of None \<Rightarrow> [] | Some b \<Rightarrow> [status b])"

text \<open>
  \<open>get_project_status\<close>, on the manager's registry. The supervisor is asked once for the
  frontend and once for the backend: \<open>out_fe\<close> and \<open>out_be\<close> are what the two runs do.
\<close>

definition get_project_status ::
    "jlist_outcome \<Rightarrow> jlist_outcome \<Rightarrow> Registry \<Rightarrow> string \<Rightarrow> error + ProjectStatus option" where
  "get_project_status out_fe out_be reg project_name =
     (case get_project reg project_name of
        None \<Rightarrow> Inr None
      | Some project \<Rightarrow>
          (case service_if_enabled out_fe (project_name @ ''-fe'') (frontend project) of
             Inl err \<Rightarrow> Inl err
           | Inr fs \<Rightarrow>
               (case service_if_enabled out_be (project_name @ ''-be'') (backend project) of
                  Inl err \<Rightarrow> Inl err
                | Inr bs \<Rightarrow>
                    Inr (Some \<lparr>status_name = project_name,
                               status_display_name =
                                 (if truthy_str (display_name project) then the (display_name project)
                                  else project_name),
                               frontend_status = fs, backend_status = bs,
                               overall_status = overall_of (present_statuses fs bs)\<rparr>))))"

section \<open>Notions used in the statements\<close>

text \<open>
  What the scan of \<open>find_available_port\<close> does with one port. It returns the port
  when the port is not excluded, not reserved (in either range's list, as
  \<open>is_port_reserved\<close> reads both), not a key of \<open>allocated\<close>, lies in \<open>0..65535\<close>
  and the probe does not connect.
\<close>

definition port_available :: "environment \<Rightarrow> Registry \<Rightarrow> int list \<Rightarrow> int \<Rightarrow> bool" where
  "port_available e reg exclude p =
     (p \<notin> set exclude \<and> \<not> is_port_reserved reg p \<and>
      \<not> dict_contains (py_str p) (allocated_of reg) \<and>
      0 \<le> p \<and> p \<le> 65535 \<and> \<not> port_listening e p)"

text \<open>
  It goes on to the next port when the port is excluded, reserved, allocated, or lies in
  \<open>0..65535\<close> and the probe connects.
\<close>

definition port_skipped :: "environment \<Rightarrow> Registry \<Rightarrow> int list \<Rightarrow> int \<Rightarrow> bool" where
  "port_skipped e reg exclude p =
     (p \<in> set exclude \<or> is_port_reserved reg p \<or>
      dict_contains (py_str p) (allocated_of reg) \<or>
      (0 \<le> p \<and> p \<le> 65535 \<and> port_listening e p))"

text \<open>
  It raises when the port is not excluded, not reserved, not allocated and lies outside
  \<open>0..65535\<close>, where the probe cannot be made.
\<close>

definition port_unprobed :: "environment \<Rightarrow> Registry \<Rightarrow> int list \<Rightarrow> int \<Rightarrow> bool" where
  "port_unprobed e reg exclude p =
     (p \<notin> set exclude \<and> \<not> is_port_reserved reg p \<and>
      \<not> dict_contains (py_str p) (allocated_of reg) \<and> (p < 0 \<or> 65535 < p))"


text \<open>The entries a returned result stands for: one per granted port, keyed by its numeral.\<close>

definition granted_entries :: "string \<Rightarrow> ports_result \<Rightarrow> (string, string) dict" where
  "granted_entries project_name r =
     (case fe_port r of None \<Rightarrow> [] | Some p \<Rightarrow> [(py_str p, project_name)]) @
     (case be_port r of None \<Rightarrow> [] | Some p \<Rightarrow> [(py_str p, project_name)])"

text \<open>The ports that the services of a project hold.\<close>

definition service_ports :: "Project \<Rightarrow> int list" where
  "service_ports p =
     (case frontend p of None \<Rightarrow> [] | Some c \<Rightarrow> (case port c of None \<Rightarrow> [] | Some q \<Rightarrow> [q])) @
     (case backend p of None \<Rightarrow> [] | Some c \<Rightarrow> (case port c of None \<Rightarrow> [] | Some q \<Rightarrow> [q]))"

text \<open>
  A patch entry the update handles within the fields of the project: a key that names a
  field, or a key that is no field and for which \<open>hasattr\<close> is false.
\<close>

definition plain_key :: "environment \<Rightarrow> field_update \<Rightarrow> bool" where
  "plain_key e u =
     (case u of Other_key k \<Rightarrow> k \<notin> set field_names \<and> \<not> has_attribute e k | _ \<Rightarrow> True)"


section \<open>Concrete inputs\<close>

text \<open>
  An environment in which no port is in use, every path is an existing directory, no
  file operation fails, a set of strings is iterated in the order of first occurrence,
  and \<open>hasattr\<close> is true for the methods of the class and for \<open>__dict__\<close> and
  \<open>__class__\<close>.
\<close>

definition quiet_env :: environment where
  "quiet_env =
     \<lparr>port_listening = (\<lambda>p. False), path_exists = (\<lambda>p. True), path_is_dir = (\<lambda>p. True),
      path_absolute = (\<lambda>p. p), now_iso = ''2024-01-01T00:00:00'',
      now_stamp = ''20240101_000000'', write_result = (\<lambda>p. Written),
      set_order = remdups,
      has_attribute = (\<lambda>k. k \<in> set [''__dict__'', ''__class__'', ''to_dict'', ''from_dict'',
                                     ''__post_init__''])\<rparr>"

text \<open>The registry of the test fixture \<open>temp_data_dir\<close>, with ranges of eleven ports.\<close>

definition fixture_registry :: Registry where
  "fixture_registry =
     \<lparr>version = ''1.0.0'', projects = [],
      port_allocation =
        \<lparr>frontend_range = \<lparr>range_start = 3000, range_end = 3010, reserved = []\<rparr>,
         backend_range = \<lparr>range_start = 8000, range_end = 8010, reserved = []\<rparr>,
         allocated = []\<rparr>,
      settings = default_settings\<lparr>auto_generate_env := False, default_tags := [''test'']\<rparr>,
      metadata = \<lparr>md_created_at = ''2024-01-01T00:00:00'', last_modified = ''2024-01-01T00:00:00'',
                  last_modified_by = ''system'', total_projects = 0, active_projects = 0\<rparr>\<rparr>"

definition fixture_state :: state where
  "fixture_state =
     \<lparr>pr_registry = None, pm_registry = None, registry_file = Some (Intact fixture_registry),
      backup_files = [], env_files = []\<rparr>"


text \<open>The fixture in which the project \<open>app\<close> already holds port 3000.\<close>

definition held_registry :: Registry where
  "held_registry = with_allocated [(''3000'', ''app'')] fixture_registry"

definition held_state :: state where
  "held_state = fixture_state\<lparr>registry_file := Some (Intact held_registry)\<rparr>"







definition backend_args :: "string \<Rightarrow> register_args" where
  "backend_args n =
     \<lparr>arg_name = n, arg_path = ''/srv/app'', arg_display_name = None, arg_description = None,
      frontend_command = None, backend_command = Some ''python main.py'',
      frontend_cwd = None, backend_cwd = None, arg_env_vars = None, arg_tags = None,
      auto_allocate_ports = True\<rparr>"

text \<open>The fixture after \<open>app\<close> was granted the first port of each range.\<close>

definition granted_registry :: Registry where
  "granted_registry = with_allocated [(''3000'', ''app''), (''8000'', ''app'')] fixture_registry"

text \<open>A project with both services, registered under \<open>app\<close>, and a job list in which only its frontend runs.\<close>

definition demo_project :: Project where
  "demo_project =
     \<lparr>name = ''app'', path = ''/srv/app'', display_name = Some ''App'', description = None,
      frontend = Some \<lparr>enabled = True, port = Some 3000, command = ''npm run dev'', cwd = None,
                       env = [], health_check = None\<rparr>,
      backend = Some \<lparr>enabled = True, port = Some 8000, command = ''python main.py'', cwd = None,
                      env = [], health_check = None\<rparr>,
      env_vars = [], dependencies = [], tags = [''test''],
      created_at = ''2024-01-01T00:00:00'', updated_at = ''2024-01-01T00:00:00'',
      project_notes = None\<rparr>"

definition demo_registry :: Registry where
  "demo_registry = granted_registry\<lparr>projects := [(''app'', demo_project)]\<rparr>"

definition demo_state :: state where
  "demo_state = fixture_state\<lparr>registry_file := Some (Intact demo_registry)\<rparr>"

definition demo_jobs :: jlist_outcome where
  "demo_jobs =
     Pm2_jobs [\<lparr>proc_name = Some ''app-fe'', proc_status = Some ''online'', proc_pid = Some 4242,
                pm_uptime = Some 0\<rparr>]"

section \<open>Auxiliary facts\<close>

subsection \<open>Numerals\<close>

lemma digit_cases:
  "d < 10 \<Longrightarrow> d = 0 \<or> d = 1 \<or> d = 2 \<or> d = 3 \<or> d = 4 \<or> d = 5 \<or> d = 6 \<or> d = 7 \<or> d = 8 \<or> d = (9::nat)"
  by arith

lemma is_digit_digit_char: "d < 10 \<Longrightarrow> is_digit (digit_char d)"
  by (drule digit_cases) (auto simp: is_digit_def digit_char_def less_eq_char_def)

lemma value_digit_char: "d < 10 \<Longrightarrow> of_char (digit_char d) - 48 = d"
  by (drule digit_cases) (auto simp: digit_char_def)

lemma str_nat_nonempty: "str_nat n \<noteq> []"
  by (subst str_nat.simps) simp

lemma str_nat_digits: "list_all is_digit (str_nat n)"
proof (induction n rule: str_nat.induct)
  case (1 n)
  show ?case
  proof (cases "n < 10")
    case True
    then show ?thesis by (subst str_nat.simps) (simp add: is_digit_digit_char)
  next
    case False
    then have "list_all is_digit (str_nat (n div 10))" using 1 by simp
    then show ?thesis using False by (subst str_nat.simps) (simp add: is_digit_digit_char)
  qed
qed

lemma digits_value_snoc: "digits_value (ds @ [c]) = 10 * digits_value ds + (of_char c - 48)"
  by (simp add: digits_value_def)

lemma digits_value_str_nat: "digits_value (str_nat n) = n"
proof (induction n rule: str_nat.induct)
  case (1 n)
  show ?case
  proof (cases "n < 10")
    case True
    then show ?thesis by (subst str_nat.simps) (simp add: digits_value_def value_digit_char)
  next
    case False
    then have "digits_value (str_nat (n div 10)) = n div 10" using 1 by simp
    then show ?thesis using False
      by (subst str_nat.simps) (simp add: digits_value_snoc value_digit_char)
  qed
qed

lemma digit_not_sign: "is_digit c \<Longrightarrow> c \<noteq> CHR ''-'' \<and> c \<noteq> CHR ''+'' \<and> c \<noteq> CHR ''_''"
  by (auto simp: is_digit_def less_eq_char_def)

lemma digit_not_space: "is_digit c \<Longrightarrow> \<not> is_space c"
  by (auto simp: is_digit_def is_space_def less_eq_char_def)

lemma sign_not_space: "\<not> is_space (CHR ''-'')"
  by (simp add: is_space_def)

lemma strip_id:
  assumes "s \<noteq> []" "\<not> is_space (hd s)" "\<not> is_space (last s)"
  shows "strip s = s"
proof -
  have a: "dropWhile is_space s = s" using assms(1,2) by (cases s) simp_all
  have h: "hd (rev s) = last s" using assms(1) by (simp add: hd_rev)
  obtain a l where al: "rev s = a # l" using assms(1) by (cases "rev s") simp_all
  have "a = last s" using h unfolding al by simp
  then have "\<not> is_space a" using assms(3) by simp
  then have b: "dropWhile is_space (rev s) = rev s" unfolding al by simp
  show ?thesis by (simp add: strip_def a b)
qed

lemma digits_ok_all_digits: "ds \<noteq> [] \<Longrightarrow> list_all is_digit ds \<Longrightarrow> digits_ok ds"
proof (induction ds rule: digits_ok.induct)
  case 1
  then show ?case by simp
next
  case (2 c)
  then show ?case by simp
next
  case (3 c d r)
  then have "is_digit d" by simp
  then have "d \<noteq> CHR ''_''" using digit_not_sign by blast
  with 3 show ?case by simp
qed

lemma filter_underscore_digits:
  "list_all is_digit ds \<Longrightarrow> filter (\<lambda>c. c \<noteq> CHR ''_'') ds = ds"
  using digit_not_sign by (induction ds) auto

lemma py_int_py_str: "py_int (py_str i) = Some i"
proof -
  define ds where "ds = str_nat (nat \<bar>i\<bar>)"
  have ne: "ds \<noteq> []" and dg: "list_all is_digit ds" and dv: "digits_value ds = nat \<bar>i\<bar>"
    by (simp_all add: ds_def str_nat_nonempty str_nat_digits digits_value_str_nat)
  obtain c r where cr: "ds = c # r" using ne by (cases ds) auto
  have hd: "is_digit (hd ds)" using dg cr by simp
  have "last ds \<in> set ds" using ne by simp
  then have lst: "is_digit (last ds)" using dg by (simp add: list_all_iff)
  have ok: "digits_ok ds" using ne dg by (rule digits_ok_all_digits)
  have fl: "filter (\<lambda>c. c \<noteq> CHR ''_'') ds = ds" using dg by (rule filter_underscore_digits)
  show ?thesis
  proof (cases "i < 0")
    case True
    have st: "strip (CHR ''-'' # ds) = CHR ''-'' # ds"
      using ne lst by (intro strip_id) (simp_all add: sign_not_space digit_not_space)
    have "py_str i = CHR ''-'' # ds" using True by (simp add: py_str_def ds_def abs_if)
    then show ?thesis using True ok fl dv by (simp add: py_int_def st Let_def)
  next
    case False
    have st: "strip ds = ds"
      using ne hd lst by (intro strip_id) (simp_all add: digit_not_space)
    have ns: "c \<noteq> CHR ''-''" "c \<noteq> CHR ''+''" using hd cr digit_not_sign by auto
    have "py_str i = ds" using False by (simp add: py_str_def ds_def abs_if)
    then show ?thesis using False ok fl dv ns cr st by (simp add: py_int_def Let_def)
  qed
qed

subsection \<open>Dictionaries and the registry\<close>

lemma fold_dict_pop: "fold dict_pop ks d = filter (\<lambda>kv. fst kv \<notin> set ks) d"
proof (induction ks arbitrary: d)
  case Nil
  then show ?case by simp
next
  case (Cons k ks)
  show ?case by (simp add: Cons.IH) (auto simp: dict_pop_def intro: filter_cong)
qed

lemma release_loop_parsed:
  "\<forall>k \<in> set ks. py_int k \<noteq> None \<Longrightarrow>
   release_loop ks a rel = (None, fold dict_pop ks a, rel @ map (\<lambda>k. the (py_int k)) ks)"
  by (induction ks arbitrary: a rel) (auto split: option.splits)

lemma dict_set_fresh:
  "k \<notin> set (dict_keys d) \<Longrightarrow> dict_set k v d = d @ [(k, v)]"
  by (induction d) (auto simp: dict_keys_def)

lemma dict_pop_absent:
  "k \<notin> set (dict_keys d) \<Longrightarrow> dict_pop k d = d"
  by (induction d) (auto simp: dict_keys_def dict_pop_def)

lemma dict_pop_append:
  "dict_pop k (d @ d') = dict_pop k d @ dict_pop k d'"
  by (simp add: dict_pop_def)

lemma dict_pop_Nil: "dict_pop k [] = []"
  by (simp add: dict_pop_def)

lemma dict_pop_Cons:
  "dict_pop k (kv # d) = (if fst kv = k then dict_pop k d else kv # dict_pop k d)"
  by (simp add: dict_pop_def)

lemma allocated_of_with_allocated [simp]:
  "allocated_of (with_allocated a reg) = a"
  by (simp add: allocated_of_def with_allocated_def)

lemma with_allocated_twice [simp]:
  "with_allocated a (with_allocated b reg) = with_allocated a reg"
  by (simp add: with_allocated_def)

lemma with_allocated_same [simp]:
  "with_allocated (allocated_of reg) reg = reg"
  by (simp add: with_allocated_def allocated_of_def)

lemma ranges_with_allocated [simp]:
  "frontend_range (port_allocation (with_allocated a reg)) = frontend_range (port_allocation reg)"
  "backend_range (port_allocation (with_allocated a reg)) = backend_range (port_allocation reg)"
  by (simp_all add: with_allocated_def)

lemma scan_ports_fresh:
  "scan_ports e reg ex ps = Inr (Some p) \<Longrightarrow> py_str p \<notin> set (dict_keys (allocated_of reg))"
  by (induction ps) (auto simp: dict_contains_def split: if_splits sum.splits)

lemma find_frontend_fresh:
  "find_available_frontend_port e reg ex = Inr (Some p) \<Longrightarrow> py_str p \<notin> set (dict_keys (allocated_of reg))"
  unfolding find_available_frontend_port_def find_available_port_def by (rule scan_ports_fresh)

lemma find_backend_fresh:
  "find_available_backend_port e reg ex = Inr (Some p) \<Longrightarrow> py_str p \<notin> set (dict_keys (allocated_of reg))"
  unfolding find_available_backend_port_def find_available_port_def by (rule scan_ports_fresh)

lemma grant_fresh:
  "py_str p \<notin> set (dict_keys (allocated_of reg)) \<Longrightarrow>
   grant p n reg = with_allocated (allocated_of reg @ [(py_str p, n)]) reg"
  by (simp add: grant_def dict_set_fresh)

lemma rollback_Nil [simp]: "rollback [] reg = reg"
  by (simp add: rollback_def)

lemma rollback_one:
  "py_str p \<notin> set (dict_keys a) \<Longrightarrow>
   rollback [p] (with_allocated (a @ [(py_str p, n)]) reg) = with_allocated a reg"
  by (simp add: rollback_def dict_pop_append dict_pop_absent dict_pop_Nil dict_pop_Cons)

lemma rollback_two:
  assumes "py_str p \<notin> set (dict_keys a)" "py_str q \<notin> set (dict_keys (a @ [(py_str p, n)]))"
  shows "rollback [p, q] (with_allocated ((a @ [(py_str p, n)]) @ [(py_str q, m)]) reg) = with_allocated a reg"
proof -
  have ne: "py_str q \<noteq> py_str p" and qa: "py_str q \<notin> set (dict_keys a)"
    using assms(2) by (auto simp: dict_keys_def)
  show ?thesis
    using assms(1) ne qa
    by (simp add: rollback_def dict_pop_append dict_pop_absent dict_pop_Nil dict_pop_Cons)
qed

lemma pm_view_cached [simp]: "pm_view e (s\<lparr>pm_registry := Some r\<rparr>) = r"
  by (simp add: pm_view_def pm_get_def)

lemma pm_view_cached2 [simp]: "pm_view e (s\<lparr>pm_registry := Some r, registry_file := f\<rparr>) = r"
  by (simp add: pm_view_def pm_get_def)

lemma pm_get_view: "pm_get e s = Inr (reg, s1) \<Longrightarrow> reg = pm_view e s"
  by (simp add: pm_view_def)

lemma pm_get_cached: "pm_registry s = Some r \<Longrightarrow> pm_get e s = Inr (r, s)"
  by (simp add: pm_get_def)

lemma pm_get_state:
  "pm_get e s = Inr (reg, s1) \<Longrightarrow> s1 = s\<lparr>pm_registry := Some reg\<rparr>"
  by (auto simp: pm_get_def split: option.splits sum.splits)

lemma pm_view_of_cached: "pm_registry s = Some r \<Longrightarrow> pm_view e s = r"
  by (simp add: pm_view_def pm_get_def)

lemma load_error_env: "load e f = Inl err \<Longrightarrow> load e' f = Inl err"
  by (auto simp: load_def split: option.splits document.splits)

lemma pm_get_error_env: "pm_get e s = Inl err \<Longrightarrow> pm_get e' s = Inl err"
proof (cases "pm_registry s")
  case None
  assume a: "pm_get e s = Inl err"
  have "load e (registry_file s) = Inl err"
    using a None by (cases "load e (registry_file s)") (simp_all add: pm_get_def)
  then have "load e' (registry_file s) = Inl err" by (rule load_error_env)
  then show ?thesis using None by (simp add: pm_get_def)
next
  case (Some r)
  assume "pm_get e s = Inl err"
  then show ?thesis using Some by (simp add: pm_get_def)
qed

lemma allocated_of_default [simp]: "allocated_of (default_registry e) = []"
  by (simp add: allocated_of_def default_registry_def default_port_allocation_def)

lemma pm_view_error: "pm_get e s = Inl err \<Longrightarrow> pm_view e s = default_registry e"
  by (simp add: pm_view_def)

subsection \<open>Evaluation on the concrete inputs\<close>

lemma find_available_port_take:
  "i \<le> j \<Longrightarrow> port_available e reg ex i \<Longrightarrow> find_available_port e reg i j ex = Inr (Some i)"
  by (simp add: find_available_port_def upto_rec1 port_available_def is_port_in_use_def)

lemma find_available_port_skip:
  "i \<le> j \<Longrightarrow> port_skipped e reg ex i \<Longrightarrow>
   find_available_port e reg i j ex = find_available_port e reg (i + 1) j ex"
  by (auto simp: find_available_port_def upto_rec1 port_skipped_def is_port_in_use_def)

lemma find_available_port_empty:
  "j < i \<Longrightarrow> find_available_port e reg i j ex = Inr None"
  by (simp add: find_available_port_def)

lemma from_dict_no_projects: "projects doc = [] \<Longrightarrow> from_dict doc = Inr doc"
  by (simp add: from_dict_def)

lemma quiet_env_simps:
  "port_listening quiet_env p = False"
  "path_exists quiet_env x = True"
  "path_is_dir quiet_env x = True"
  "path_absolute quiet_env x = x"
  "write_result quiet_env io = Written"
  "set_order quiet_env = remdups"
  "now_iso quiet_env = ''2024-01-01T00:00:00''"
  "now_stamp quiet_env = ''20240101_000000''"
  by (simp_all add: quiet_env_def)

lemma fixture_registry_simps:
  "frontend_range (port_allocation fixture_registry) = \<lparr>range_start = 3000, range_end = 3010, reserved = []\<rparr>"
  "backend_range (port_allocation fixture_registry) = \<lparr>range_start = 8000, range_end = 8010, reserved = []\<rparr>"
  "allocated_of fixture_registry = []"
  "projects fixture_registry = []"
  by (simp_all add: fixture_registry_def allocated_of_def)

lemma py_str_ports:
  "py_str 3000 = ''3000''" "py_str 3001 = ''3001''" "py_str 8000 = ''8000''" "py_str 8001 = ''8001''"
  by (simp_all add: py_str_def str_nat.simps digit_char_def)

lemma py_int_ports:
  "py_int ''3000'' = Some 3000" "py_int ''3001'' = Some 3001" "py_int ''8000'' = Some 8000"
  using py_int_py_str[of 3000] py_int_py_str[of 3001] py_int_py_str[of 8000]
  by (simp_all add: py_str_ports)

lemma pm_get_fixture:
  "pm_get quiet_env fixture_state = Inr (fixture_registry, fixture_state\<lparr>pm_registry := Some fixture_registry\<rparr>)"
  by (simp add: pm_get_def fixture_state_def load_def from_dict_no_projects fixture_registry_simps)

lemma pm_view_fixture: "pm_view quiet_env fixture_state = fixture_registry"
  by (simp add: pm_view_def pm_get_fixture)

lemmas port_tests = port_available_def port_skipped_def is_port_reserved_def dict_contains_def dict_keys_def
  find_available_frontend_port_def find_available_backend_port_def

lemma find_frontend_fixture:
   "find_available_frontend_port quiet_env fixture_registry [] = Inr (Some 3000)"
  by (simp add: port_tests find_available_port_take quiet_env_simps fixture_registry_simps)

lemma grant_frontend_fixture:
  "grant 3000 ''app'' fixture_registry = with_allocated [(''3000'', ''app'')] fixture_registry"
  by (simp add: grant_def py_str_ports fixture_registry_simps)

lemma find_backend_fixture:
  "find_available_backend_port quiet_env (with_allocated [(''3000'', n)] fixture_registry) [] = Inr (Some 8000)"
  by (simp add: port_tests find_available_port_take py_str_ports quiet_env_simps fixture_registry_simps)

lemma grant_backend_fixture:
  "grant 8000 ''app'' (with_allocated [(''3000'', ''app'')] fixture_registry) =
      with_allocated [(''3000'', ''app''), (''8000'', ''app'')] fixture_registry"
  by (simp add: grant_def py_str_ports)

lemma write_registry_quiet:
  "write_registry quiet_env pt reg s = (None, s\<lparr>registry_file := Some (Intact reg)\<rparr>)"
  by (simp add: write_registry_def quiet_env_def)

lemma allocate_fixture:
  "allocate_ports quiet_env ''app'' True True fixture_state =
     (Inr \<lparr>fe_port = Some 3000, be_port = Some 8000\<rparr>,
      fixture_state\<lparr>pm_registry := Some granted_registry, registry_file := Some (Intact granted_registry)\<rparr>)"
  by (simp add: allocate_ports_def pm_get_fixture find_frontend_fixture grant_frontend_fixture
      find_backend_fixture grant_backend_fixture write_registry_quiet grant_step_def granted_registry_def)

lemma with_allocated_fixture_empty: "with_allocated [] fixture_registry = fixture_registry"
  by (metis with_allocated_same fixture_registry_simps(3))

lemma release_granted:
  "release_ports quiet_env ''app''
     (fixture_state\<lparr>pm_registry := Some granted_registry, registry_file := Some (Intact granted_registry)\<rparr>) =
   (Inr [3000, 8000],
    fixture_state\<lparr>pm_registry := Some fixture_registry, registry_file := Some (Intact fixture_registry)\<rparr>)"
  by (simp add: release_ports_def pm_get_def granted_registry_def py_int_ports dict_pop_def
      write_registry_quiet fixture_registry_simps Let_def with_allocated_fixture_empty)

lemma held_registry_simps:
  "frontend_range (port_allocation held_registry) = \<lparr>range_start = 3000, range_end = 3010, reserved = []\<rparr>"
  "backend_range (port_allocation held_registry) = \<lparr>range_start = 8000, range_end = 8010, reserved = []\<rparr>"
  "allocated_of held_registry = [(''3000'', ''app'')]"
  by (simp_all add: held_registry_def fixture_registry_simps)

lemma held_registry_projects: "projects held_registry = []"
  by (simp add: held_registry_def with_allocated_def fixture_registry_simps)

lemma pm_get_held:
  "pm_get quiet_env held_state = Inr (held_registry, held_state\<lparr>pm_registry := Some held_registry\<rparr>)"
  by (simp add: pm_get_def held_state_def fixture_state_def load_def from_dict_no_projects
      held_registry_projects)

lemma pm_view_held: "pm_view quiet_env held_state = held_registry"
  by (simp add: pm_view_def pm_get_held)

lemma allocate_held:
  "allocate_ports quiet_env ''app'' True True held_state =
     (Inr \<lparr>fe_port = Some 3001, be_port = Some 8000\<rparr>,
      held_state\<lparr>pm_registry :=
                    Some (with_allocated [(''3000'', ''app''), (''3001'', ''app''), (''8000'', ''app'')] fixture_registry),
                  registry_file :=
                    Some (Intact (with_allocated [(''3000'', ''app''), (''3001'', ''app''), (''8000'', ''app'')] fixture_registry))\<rparr>)"
proof -
  have f1: "find_available_frontend_port quiet_env held_registry [] = Inr (Some 3001)"
    by (simp add: port_tests find_available_port_take find_available_port_skip quiet_env_simps
        held_registry_simps py_str_ports)
  have g1: "grant 3001 ''app'' held_registry =
      with_allocated [(''3000'', ''app''), (''3001'', ''app'')] fixture_registry"
    by (simp add: grant_def py_str_ports held_registry_simps) (simp add: held_registry_def)
  have f2: "find_available_backend_port quiet_env
      (with_allocated [(''3000'', ''app''), (''3001'', ''app'')] fixture_registry) [] = Inr (Some 8000)"
    by (simp add: port_tests find_available_port_take py_str_ports quiet_env_simps fixture_registry_simps)
  have g2: "grant 8000 ''app'' (with_allocated [(''3000'', ''app''), (''3001'', ''app'')] fixture_registry) =
      with_allocated [(''3000'', ''app''), (''3001'', ''app''), (''8000'', ''app'')] fixture_registry"
    by (simp add: grant_def py_str_ports)
  show ?thesis
    by (simp add: allocate_ports_def pm_get_held f1 g1 f2 g2 write_registry_quiet grant_step_def)
qed

lemma release_held:
  "release_ports quiet_env ''app''
     (held_state\<lparr>pm_registry :=
                    Some (with_allocated [(''3000'', ''app''), (''3001'', ''app''), (''8000'', ''app'')] fixture_registry),
                  registry_file :=
                    Some (Intact (with_allocated [(''3000'', ''app''), (''3001'', ''app''), (''8000'', ''app'')] fixture_registry))\<rparr>) =
   (Inr [3000, 3001, 8000],
    held_state\<lparr>pm_registry := Some fixture_registry, registry_file := Some (Intact fixture_registry)\<rparr>)"
  by (simp add: release_ports_def pm_get_def py_int_ports dict_pop_def
      write_registry_quiet fixture_registry_simps Let_def with_allocated_fixture_empty)

lemma get_project_demo: "get_project demo_registry ''app'' = Some demo_project"
  by (simp add: get_project_def dict_get_def demo_registry_def)

section \<open>Properties of the port search\<close>


lemma port_available_exclusive:
  "port_available e reg ex p \<Longrightarrow> \<not> port_skipped e reg ex p \<and> \<not> port_unprobed e reg ex p"
  by (auto simp: port_available_def port_skipped_def port_unprobed_def)

lemma port_unprobed_exclusive:
  "port_unprobed e reg ex p \<Longrightarrow> \<not> port_skipped e reg ex p \<and> \<not> port_available e reg ex p"
  by (auto simp: port_available_def port_skipped_def port_unprobed_def)




















section \<open>Properties of allocation and release\<close>

lemma write_registry_cached:
  "write_registry e pt reg s = (r, s') \<Longrightarrow> pm_registry s' = pm_registry s \<and> pr_registry s' = pr_registry s"
  by (auto simp: write_registry_def split: write_outcome.splits)

lemma allocate_ports_load_error:
  "pm_get e s = Inl err \<Longrightarrow> allocate_ports e project_name need_frontend need_backend s = (Inl err, s)"
  by (simp add: allocate_ports_def)

lemma allocate_ports_write:
  assumes "(case write_registry e PortManagerWrite reg2 (s\<lparr>pm_registry := Some reg2\<rparr>) of
              (Some err, s') \<Rightarrow> (Inl err, s'\<lparr>pm_registry := Some (rollback ports2 reg2)\<rparr>)
            | (None, s') \<Rightarrow> (Inr r, s')) = (res, s')"
  shows "(\<exists>err. res = Inl err \<and> pm_registry s' = Some (rollback ports2 reg2)) \<or>
         (res = Inr r \<and> pm_registry s' = Some reg2)"
  using assms by (auto simp: write_registry_def split: write_outcome.splits)

lemma allocate_ports_effect:
  assumes g: "pm_get e s = Inr (reg0, s1)"
    and al: "allocate_ports e project_name need_frontend need_backend s = (res, s')"
  shows "\<exists>reg1. pm_registry s' = Some reg1 \<and>
          (case res of
             Inl err \<Rightarrow> allocated_of reg1 = allocated_of reg0
           | Inr r \<Rightarrow>
               allocated_of reg1 = allocated_of reg0 @ granted_entries project_name r \<and>
               (fe_port r \<noteq> None) = need_frontend \<and> (be_port r \<noteq> None) = need_backend \<and>
               distinct (dict_keys (granted_entries project_name r)) \<and>
               set (dict_keys (granted_entries project_name r)) \<inter>
                 set (dict_keys (allocated_of reg0)) = {})"
proof -
  have tail:
    "\<exists>reg1. pm_registry s' = Some reg1 \<and>
          (case res of
             Inl err \<Rightarrow> allocated_of reg1 = allocated_of reg0
           | Inr r \<Rightarrow>
               allocated_of reg1 = allocated_of reg0 @ granted_entries project_name r \<and>
               (fe_port r \<noteq> None) = need_frontend \<and> (be_port r \<noteq> None) = need_backend \<and>
               distinct (dict_keys (granted_entries project_name r)) \<and>
               set (dict_keys (granted_entries project_name r)) \<inter>
                 set (dict_keys (allocated_of reg0)) = {})"
    if fe: "(fe \<noteq> None) = need_frontend"
      and r1: "reg1 = with_allocated (allocated_of reg0 @ g1) reg0"
      and g1: "g1 = (case fe of None \<Rightarrow> [] | Some p \<Rightarrow> [(py_str p, project_name)])"
      and rb1: "rollback ports1 reg1 = with_allocated (allocated_of reg0) reg0"
      and fr1: "set (dict_keys g1) \<inter> set (dict_keys (allocated_of reg0)) = {}"
      and rbq: "\<And>q. py_str q \<notin> set (dict_keys (allocated_of reg1)) \<Longrightarrow>
                 rollback (ports1 @ [q]) (with_allocated (allocated_of reg1 @ [(py_str q, project_name)]) reg1) =
                 with_allocated (allocated_of reg0) reg0"
      and rest: "(let be_step =
                   (if need_backend
                    then grant_step (find_available_backend_port e reg1 []) project_name ports1 reg1
                    else Inr (None, ports1, reg1))
                 in case be_step of
                      Inl (err, ports, reg) \<Rightarrow> (Inl err, s1\<lparr>pm_registry := Some (rollback ports reg)\<rparr>)
                    | Inr (be, ports2, reg2) \<Rightarrow>
                        (case write_registry e PortManagerWrite reg2 (s1\<lparr>pm_registry := Some reg2\<rparr>) of
                           (Some err, s') \<Rightarrow> (Inl err, s'\<lparr>pm_registry := Some (rollback ports2 reg2)\<rparr>)
                         | (None, s') \<Rightarrow> (Inr \<lparr>fe_port = fe, be_port = be\<rparr>, s'))) = (res, s')"
    for fe ports1 reg1 g1
  proof (cases need_backend)
    case nb: False
    from rest nb have
      "(case write_registry e PortManagerWrite reg1 (s1\<lparr>pm_registry := Some reg1\<rparr>) of
              (Some err, s') \<Rightarrow> (Inl err, s'\<lparr>pm_registry := Some (rollback ports1 reg1)\<rparr>)
            | (None, s') \<Rightarrow> (Inr \<lparr>fe_port = fe, be_port = None\<rparr>, s')) = (res, s')"
      by simp
    from allocate_ports_write[OF this] show ?thesis
    proof
      assume "\<exists>err. res = Inl err \<and> pm_registry s' = Some (rollback ports1 reg1)"
      then show ?thesis by (auto simp: rb1)
    next
      assume "res = Inr \<lparr>fe_port = fe, be_port = None\<rparr> \<and> pm_registry s' = Some reg1"
      then show ?thesis using fe nb fr1
        by (auto simp: r1 g1 granted_entries_def dict_keys_def split: option.splits)
    qed
  next
    case nb: True
    show ?thesis
    proof (cases "find_available_backend_port e reg1 []")
      case (Inl err)
      with rest nb show ?thesis by (auto simp: grant_step_def rb1)
    next
      case (Inr found)
      show ?thesis
      proof (cases found)
        case None
        with Inr rest nb show ?thesis by (auto simp: grant_step_def rb1)
      next
        case (Some q)
        have fq: "py_str q \<notin> set (dict_keys (allocated_of reg1))"
          using find_backend_fresh Inr Some by blast
        let ?reg2 = "with_allocated (allocated_of reg1 @ [(py_str q, project_name)]) reg1"
        have g2: "grant q project_name reg1 = ?reg2" using fq by (rule grant_fresh)
        from rest nb Inr Some have
          "(case write_registry e PortManagerWrite ?reg2 (s1\<lparr>pm_registry := Some ?reg2\<rparr>) of
              (Some err, s') \<Rightarrow> (Inl err, s'\<lparr>pm_registry := Some (rollback (ports1 @ [q]) ?reg2)\<rparr>)
            | (None, s') \<Rightarrow> (Inr \<lparr>fe_port = fe, be_port = Some q\<rparr>, s')) = (res, s')"
          by (simp add: grant_step_def g2)
        from allocate_ports_write[OF this] show ?thesis
        proof
          assume "\<exists>err. res = Inl err \<and> pm_registry s' = Some (rollback (ports1 @ [q]) ?reg2)"
          then show ?thesis by (auto simp: rbq[OF fq])
        next
          assume a: "res = Inr \<lparr>fe_port = fe, be_port = Some q\<rparr> \<and> pm_registry s' = Some ?reg2"
          have "py_str q \<notin> set (dict_keys (allocated_of reg0)) \<and> py_str q \<notin> set (dict_keys g1)"
            using fq by (simp add: r1 dict_keys_def)
          then show ?thesis using a fe nb fr1
            by (auto simp: r1 g1 granted_entries_def dict_keys_def split: option.splits)
        qed
      qed
    qed
  qed
  show ?thesis
  proof (cases need_frontend)
    case nf: False
    show ?thesis
    proof (rule tail[of None reg0 "[]" "[]"])
      show "(None \<noteq> None) = need_frontend" using nf by simp
      show "reg0 = with_allocated (allocated_of reg0 @ []) reg0" by simp
      show "[] = (case None of None \<Rightarrow> [] | Some p \<Rightarrow> [(py_str p, project_name)])" by simp
      show "rollback [] reg0 = with_allocated (allocated_of reg0) reg0" by simp
      show "set (dict_keys []) \<inter> set (dict_keys (allocated_of reg0)) = {}" by (simp add: dict_keys_def)
      show "rollback ([] @ [q]) (with_allocated (allocated_of reg0 @ [(py_str q, project_name)]) reg0) =
                 with_allocated (allocated_of reg0) reg0"
        if "py_str q \<notin> set (dict_keys (allocated_of reg0))" for q
        using rollback_one[OF that, of project_name reg0] by simp
      show "(let be_step =
                   (if need_backend
                    then grant_step (find_available_backend_port e reg0 []) project_name [] reg0
                    else Inr (None, [], reg0))
                 in case be_step of
                      Inl (err, ports, reg) \<Rightarrow> (Inl err, s1\<lparr>pm_registry := Some (rollback ports reg)\<rparr>)
                    | Inr (be, ports2, reg2) \<Rightarrow>
                        (case write_registry e PortManagerWrite reg2 (s1\<lparr>pm_registry := Some reg2\<rparr>) of
                           (Some err, s') \<Rightarrow> (Inl err, s'\<lparr>pm_registry := Some (rollback ports2 reg2)\<rparr>)
                         | (None, s') \<Rightarrow> (Inr \<lparr>fe_port = None, be_port = be\<rparr>, s'))) = (res, s')"
        using al nf by (simp add: allocate_ports_def g)
    qed
  next
    case nf: True
    show ?thesis
    proof (cases "find_available_frontend_port e reg0 []")
      case (Inl err)
      with al nf show ?thesis by (auto simp: allocate_ports_def g grant_step_def)
    next
      case (Inr found)
      show ?thesis
      proof (cases found)
        case None
        with Inr al nf show ?thesis by (auto simp: allocate_ports_def g grant_step_def)
      next
        case (Some p)
        have fp: "py_str p \<notin> set (dict_keys (allocated_of reg0))"
          using find_frontend_fresh Inr Some by blast
        let ?reg1 = "with_allocated (allocated_of reg0 @ [(py_str p, project_name)]) reg0"
        have g1: "grant p project_name reg0 = ?reg1" using fp by (rule grant_fresh)
        show ?thesis
        proof (rule tail[of "Some p" ?reg1 "[(py_str p, project_name)]" "[p]"])
          show "(Some p \<noteq> None) = need_frontend" using nf by simp
          show "?reg1 = with_allocated (allocated_of reg0 @ [(py_str p, project_name)]) reg0" by simp
          show "[(py_str p, project_name)] =
                  (case Some p of None \<Rightarrow> [] | Some p \<Rightarrow> [(py_str p, project_name)])" by simp
          show "rollback [p] ?reg1 = with_allocated (allocated_of reg0) reg0"
            using fp by (rule rollback_one)
          show "set (dict_keys [(py_str p, project_name)]) \<inter> set (dict_keys (allocated_of reg0)) = {}"
            using fp by (simp add: dict_keys_def)
          show "rollback ([p] @ [q]) (with_allocated (allocated_of ?reg1 @ [(py_str q, project_name)]) ?reg1) =
                 with_allocated (allocated_of reg0) reg0"
            if "py_str q \<notin> set (dict_keys (allocated_of ?reg1))" for q
          proof -
            have fq: "py_str q \<notin> set (dict_keys (allocated_of reg0 @ [(py_str p, project_name)]))"
              using that by simp
            show ?thesis using rollback_two[OF fp fq, of project_name reg0] by simp
          qed
          show "(let be_step =
                   (if need_backend
                    then grant_step (find_available_backend_port e ?reg1 []) project_name [p] ?reg1
                    else Inr (None, [p], ?reg1))
                 in case be_step of
                      Inl (err, ports, reg) \<Rightarrow> (Inl err, s1\<lparr>pm_registry := Some (rollback ports reg)\<rparr>)
                    | Inr (be, ports2, reg2) \<Rightarrow>
                        (case write_registry e PortManagerWrite reg2 (s1\<lparr>pm_registry := Some reg2\<rparr>) of
                           (Some err, s') \<Rightarrow> (Inl err, s'\<lparr>pm_registry := Some (rollback ports2 reg2)\<rparr>)
                         | (None, s') \<Rightarrow> (Inr \<lparr>fe_port = Some p, be_port = be\<rparr>, s'))) = (res, s')"
            using al nf Inr Some by (simp add: allocate_ports_def g grant_step_def g1)
        qed
      qed
    qed
  qed
qed

lemma allocate_ports_cached:
  assumes "allocate_ports e project_name need_frontend need_backend s = (res, s')"
  shows "(\<exists>err. pm_get e s = Inl err \<and> res = Inl err \<and> s' = s) \<or>
         (\<exists>reg1. pm_registry s' = Some reg1 \<and>
          (case res of
             Inl err \<Rightarrow> allocated_of reg1 = allocated_of (pm_view e s)
           | Inr r \<Rightarrow>
               allocated_of reg1 = allocated_of (pm_view e s) @ granted_entries project_name r \<and>
               (fe_port r \<noteq> None) = need_frontend \<and> (be_port r \<noteq> None) = need_backend \<and>
               distinct (dict_keys (granted_entries project_name r)) \<and>
               set (dict_keys (granted_entries project_name r)) \<inter>
                 set (dict_keys (allocated_of (pm_view e s))) = {}))"
proof (cases "pm_get e s")
  case (Inl err)
  then show ?thesis using assms by (simp add: allocate_ports_load_error)
next
  case (Inr pr)
  obtain reg0 s1 where pr: "pr = (reg0, s1)" by (cases pr)
  have g: "pm_get e s = Inr (reg0, s1)" using Inr pr by simp
  have r0: "pm_view e s = reg0" using pm_get_view[OF g] by simp
  show ?thesis using allocate_ports_effect[OF g assms] unfolding r0 by blast
qed

text \<open>
  Claim C1. For every call of \<open>allocate_ports\<close>: if the call raises (port exhaustion
  in either range, a search or a load that raises, or a failed write), the allocated map
  of the port manager afterwards equals the map before the call; if it returns, the map
  afterwards is the map before followed by exactly one entry per requested port, each
  mapping the numeral of the granted port to the project name. The new keys are distinct
  and none was a key before, so no other entry is added, removed or changed.
\<close>

theorem allocate_ports_all_or_nothing:
  assumes "allocate_ports e project_name need_frontend need_backend s = (res, s')"
  shows "case res of
           Inl err \<Rightarrow> allocated_of (pm_view e s') = allocated_of (pm_view e s)
         | Inr r \<Rightarrow>
             allocated_of (pm_view e s') = allocated_of (pm_view e s) @ granted_entries project_name r \<and>
             (fe_port r \<noteq> None) = need_frontend \<and> (be_port r \<noteq> None) = need_backend \<and>
             distinct (dict_keys (granted_entries project_name r)) \<and>
             set (dict_keys (granted_entries project_name r)) \<inter>
               set (dict_keys (allocated_of (pm_view e s))) = {}"
proof -
  from allocate_ports_cached[OF assms] show ?thesis
  proof
    assume "\<exists>err. pm_get e s = Inl err \<and> res = Inl err \<and> s' = s"
    then show ?thesis by auto
  next
    assume "\<exists>reg1. pm_registry s' = Some reg1 \<and>
          (case res of
             Inl err \<Rightarrow> allocated_of reg1 = allocated_of (pm_view e s)
           | Inr r \<Rightarrow>
               allocated_of reg1 = allocated_of (pm_view e s) @ granted_entries project_name r \<and>
               (fe_port r \<noteq> None) = need_frontend \<and> (be_port r \<noteq> None) = need_backend \<and>
               distinct (dict_keys (granted_entries project_name r)) \<and>
               set (dict_keys (granted_entries project_name r)) \<inter>
                 set (dict_keys (allocated_of (pm_view e s))) = {})"
    then obtain reg1 where
      c: "pm_registry s' = Some reg1" and
      d: "case res of
             Inl err \<Rightarrow> allocated_of reg1 = allocated_of (pm_view e s)
           | Inr r \<Rightarrow>
               allocated_of reg1 = allocated_of (pm_view e s) @ granted_entries project_name r \<and>
               (fe_port r \<noteq> None) = need_frontend \<and> (be_port r \<noteq> None) = need_backend \<and>
               distinct (dict_keys (granted_entries project_name r)) \<and>
               set (dict_keys (granted_entries project_name r)) \<inter>
                 set (dict_keys (allocated_of (pm_view e s))) = {}"
      by blast
    have "pm_view e s' = reg1" using c by (rule pm_view_of_cached)
    with d show ?thesis by (cases res) simp_all
  qed
qed

theorem allocate_ports_all_or_nothing_witness:
  "fst (allocate_ports quiet_env ''app'' True True fixture_state) =
     Inr \<lparr>fe_port = Some 3000, be_port = Some 8000\<rparr> \<and>
   allocated_of (pm_view quiet_env (snd (allocate_ports quiet_env ''app'' True True fixture_state))) =
     allocated_of (pm_view quiet_env fixture_state) @ [(''3000'', ''app''), (''8000'', ''app'')]"
  using allocate_ports_all_or_nothing[OF allocate_fixture]
  by (simp add: allocate_fixture granted_entries_def py_str_ports)

lemma granted_entries_values:
  "kv \<in> set (granted_entries n r) \<Longrightarrow> snd kv = n \<and> (\<exists>p. fst kv = py_str p)"
  by (auto simp: granted_entries_def split: option.splits)

lemma release_ports_load_error:
  "pm_get e s = Inl err \<Longrightarrow> release_ports e project_name s = (Inl err, s)"
  by (simp add: release_ports_def)

lemma release_ports_effect:
  assumes c: "pm_registry s1 = Some reg1"
    and a: "allocated_of reg1 = a0 @ g"
    and v: "n \<notin> set (dict_values a0)"
    and gv: "\<forall>kv \<in> set g. snd kv = n \<and> (\<exists>p. fst kv = py_str p)"
    and fr: "set (dict_keys g) \<inter> set (dict_keys a0) = {}"
    and rel: "release_ports e n s1 = (res, s2)"
  shows "allocated_of (pm_view e s2) = a0"
proof -
  have pg: "pm_get e s1 = Inr (reg1, s1)" using c by (rule pm_get_cached)
  have f0: "filter (\<lambda>kv. snd kv = n) a0 = []"
    using v by (auto simp: dict_values_def filter_empty_conv)
  have fg: "filter (\<lambda>kv. snd kv = n) g = g"
    using gv by (auto simp: filter_id_conv)
  have ks: "map fst (filter (\<lambda>kv. snd kv = n) (allocated_of reg1)) = dict_keys g"
    by (simp add: a f0 fg dict_keys_def)
  have parsed: "\<forall>k \<in> set (dict_keys g). py_int k \<noteq> None"
    using gv by (auto simp: dict_keys_def py_int_py_str)
  have p0: "filter (\<lambda>kv. fst kv \<notin> set (dict_keys g)) a0 = a0"
    using fr by (auto simp: filter_id_conv dict_keys_def)
  have p1: "filter (\<lambda>kv. fst kv \<notin> set (dict_keys g)) g = []"
    by (auto simp: filter_empty_conv dict_keys_def)
  have lp: "release_loop (dict_keys g) (allocated_of reg1) [] =
      (None, a0, map (\<lambda>k. the (py_int k)) (dict_keys g))"
    using release_loop_parsed[OF parsed, of "allocated_of reg1" "[]"]
    by (simp add: fold_dict_pop a p0 p1)
  from rel show ?thesis
    by (auto simp: release_ports_def pg ks lp Let_def write_registry_def
        split: if_splits write_outcome.splits)
qed

text \<open>
  Claim C6, as the code has it. If no entry of the allocated map is held by the project
  before the allocation, then \<open>allocate_ports\<close> for the project's name followed by
  \<open>release_ports\<close> for the same name returns the allocated map to exactly its value
  before the allocation, whether the allocation returned or raised. (\<open>release_ports\<close>
  removes every entry of the project, also those it held before.)
\<close>

theorem allocate_then_release_restores:
  assumes "project_name \<notin> set (dict_values (allocated_of (pm_view e s)))"
    and "allocate_ports e project_name need_frontend need_backend s = (res, s1)"
    and "release_ports e' project_name s1 = (res', s2)"
  shows "allocated_of (pm_view e' s2) = allocated_of (pm_view e s)"
proof -
  from allocate_ports_cached[OF assms(2)] show ?thesis
  proof
    assume "\<exists>err. pm_get e s = Inl err \<and> res = Inl err \<and> s1 = s"
    then obtain err where h: "pm_get e s = Inl err" "s1 = s" by blast
    have h': "pm_get e' s = Inl err" using h(1) by (rule pm_get_error_env)
    have "s2 = s" using assms(3) h(2) by (simp add: release_ports_load_error[OF h'])
    then show ?thesis by (simp add: pm_view_error[OF h(1)] pm_view_error[OF h'])
  next
    assume "\<exists>reg1. pm_registry s1 = Some reg1 \<and>
          (case res of
             Inl err \<Rightarrow> allocated_of reg1 = allocated_of (pm_view e s)
           | Inr r \<Rightarrow>
               allocated_of reg1 = allocated_of (pm_view e s) @ granted_entries project_name r \<and>
               (fe_port r \<noteq> None) = need_frontend \<and> (be_port r \<noteq> None) = need_backend \<and>
               distinct (dict_keys (granted_entries project_name r)) \<and>
               set (dict_keys (granted_entries project_name r)) \<inter>
                 set (dict_keys (allocated_of (pm_view e s))) = {})"
    then obtain reg1 where
      c: "pm_registry s1 = Some reg1" and
      d: "case res of
             Inl err \<Rightarrow> allocated_of reg1 = allocated_of (pm_view e s)
           | Inr r \<Rightarrow>
               allocated_of reg1 = allocated_of (pm_view e s) @ granted_entries project_name r \<and>
               (fe_port r \<noteq> None) = need_frontend \<and> (be_port r \<noteq> None) = need_backend \<and>
               distinct (dict_keys (granted_entries project_name r)) \<and>
               set (dict_keys (granted_entries project_name r)) \<inter>
                 set (dict_keys (allocated_of (pm_view e s))) = {}"
      by blast
    show ?thesis
    proof (cases res)
      case (Inl err)
      with d have a: "allocated_of reg1 = allocated_of (pm_view e s) @ []" by simp
      show ?thesis
        by (rule release_ports_effect[OF c a assms(1) _ _ assms(3)]) (simp_all add: dict_keys_def)
    next
      case (Inr r)
      with d have a: "allocated_of reg1 = allocated_of (pm_view e s) @ granted_entries project_name r"
        and fr: "set (dict_keys (granted_entries project_name r)) \<inter>
                   set (dict_keys (allocated_of (pm_view e s))) = {}"
        by simp_all
      have gv: "\<forall>kv \<in> set (granted_entries project_name r). snd kv = project_name \<and> (\<exists>p. fst kv = py_str p)"
        using granted_entries_values by blast
      show ?thesis
        by (rule release_ports_effect[OF c a assms(1) gv fr assms(3)])
    qed
  qed
qed

theorem allocate_then_release_restores_witness:
  "''app'' \<notin> set (dict_values (allocated_of (pm_view quiet_env fixture_state))) \<and>
   fst (release_ports quiet_env ''app'' (snd (allocate_ports quiet_env ''app'' True True fixture_state))) =
     Inr [3000, 8000] \<and>
   allocated_of (pm_view quiet_env
     (snd (release_ports quiet_env ''app'' (snd (allocate_ports quiet_env ''app'' True True fixture_state))))) =
   allocated_of (pm_view quiet_env fixture_state)"
proof -
  have v: "''app'' \<notin> set (dict_values (allocated_of (pm_view quiet_env fixture_state)))"
    by (simp add: pm_view_fixture fixture_registry_simps dict_values_def)
  from allocate_then_release_restores[OF v allocate_fixture release_granted] v
  show ?thesis by (simp add: allocate_fixture release_granted)
qed

text \<open>
  When \<open>app\<close> already holds port 3000, allocating for \<open>app\<close> and releasing
  \<open>app\<close> leaves the map empty: the earlier entry is gone as well.
\<close>

theorem release_takes_earlier_ports_counterexample:
  "allocated_of (pm_view quiet_env held_state) = [(''3000'', ''app'')] \<and>
   fst (allocate_ports quiet_env ''app'' True True held_state) =
     Inr \<lparr>fe_port = Some 3001, be_port = Some 8000\<rparr> \<and>
   allocated_of (pm_view quiet_env
     (snd (release_ports quiet_env ''app'' (snd (allocate_ports quiet_env ''app'' True True held_state))))) = []"
  by (simp add: allocate_held release_held pm_view_held held_registry_simps fixture_registry_simps)

section \<open>Properties of the port summary\<close>









section \<open>Properties of the project directory\<close>

text \<open>
  Claim C10. \<open>search_projects\<close> called with the empty string returns every registered
  project: the empty query occurs in every name, so each project matches on the first
  test.
\<close>

theorem search_projects_empty_query:
  "search_projects reg [] = dict_values (projects reg)"
proof -
  have "str_in [] s" for s by (cases s) simp_all
  then have "project_matches [] p" for p by (simp add: project_matches_def)
  then show ?thesis by (simp add: search_projects_def py_lower_def)
qed

section \<open>Properties of saving and updating\<close>

lemma pr_view_of_cached: "pr_registry s = Some r \<Longrightarrow> pr_view e s = r"
  by (simp add: pr_view_def pr_get_def)

lemma pr_get_view: "pr_get e s = Inr (reg, s1) \<Longrightarrow> reg = pr_view e s"
  by (simp add: pr_view_def)

lemma pr_get_cached: "pr_registry s = Some r \<Longrightarrow> pr_get e s = Inr (r, s)"
  by (simp add: pr_get_def)

lemma pr_view_error: "pr_get e s = Inl err \<Longrightarrow> pr_view e s = default_registry e"
  by (simp add: pr_view_def)

lemma projects_default [simp]: "projects (default_registry e) = []"
  by (simp add: default_registry_def)

lemma create_backup_keeps:
  "create_backup e s = (r, s') \<Longrightarrow>
   pr_registry s' = pr_registry s \<and> pm_registry s' = pm_registry s \<and>
   registry_file s' = registry_file s \<and> env_files s' = env_files s"
  by (auto simp: create_backup_def Let_def split: option.splits write_outcome.splits)

lemma pr_save_registry:
  assumes "pr_save e modified_by reg s = (failed, s')"
  shows "pr_registry s' = Some (touch_metadata e modified_by reg)"
proof -
  obtain r s2 where cb: "create_backup e (s\<lparr>pr_registry := Some (touch_metadata e modified_by reg)\<rparr>) = (r, s2)"
    by (cases "create_backup e (s\<lparr>pr_registry := Some (touch_metadata e modified_by reg)\<rparr>)")
  from create_backup_keeps[OF cb] have k: "pr_registry s2 = Some (touch_metadata e modified_by reg)"
    by simp
  show ?thesis
  proof (cases r)
    case None
    with assms cb have "write_registry e RegistryWrite (touch_metadata e modified_by reg) s2 = (failed, s')"
      by (simp add: pr_save_def Let_def)
    from write_registry_cached[OF this] k show ?thesis by simp
  next
    case (Some err)
    with assms cb k show ?thesis by (simp add: pr_save_def Let_def)
  qed
qed

lemma pr_save_succeeds:
  assumes "write_result e BackupCopy = Written" "write_result e RegistryWrite = Written"
  shows "fst (pr_save e modified_by reg s) = None"
proof -
  obtain r s2 where cb: "create_backup e (s\<lparr>pr_registry := Some (touch_metadata e modified_by reg)\<rparr>) = (r, s2)"
    by (cases "create_backup e (s\<lparr>pr_registry := Some (touch_metadata e modified_by reg)\<rparr>)")
  have "r = None" using cb assms(1)
    by (auto simp: create_backup_def Let_def split: option.splits)
  with cb assms(2) show ?thesis by (simp add: pr_save_def Let_def write_registry_def)
qed

lemma projects_touch_metadata [simp]: "projects (touch_metadata e m reg) = projects reg"
  by (simp add: touch_metadata_def)

lemma dict_keys_dict_set_present:
  "k \<in> set (dict_keys d) \<Longrightarrow> dict_keys (dict_set k v d) = dict_keys d"
  by (induction d) (auto simp: dict_keys_def)

lemma dict_get_dict_set: "dict_get k (dict_set k v d) = Some v"
  by (induction d) (auto simp: dict_get_def)

lemma dict_get_in_keys: "dict_get k d = Some v \<Longrightarrow> k \<in> set (dict_keys d)"
  by (auto simp: dict_get_def dict_keys_def dest: map_of_SomeD intro: rev_image_eqI)

lemma apply_update_plain: "plain_key e u \<Longrightarrow> \<exists>p'. apply_update e u p = Some p'"
  by (cases u) (simp_all add: plain_key_def)

lemma apply_updates_plain:
  "\<forall>u \<in> set us. plain_key e u \<Longrightarrow> \<exists>p'. apply_updates e us p = Some p'"
proof (induction us arbitrary: p)
  case Nil
  then show ?case by simp
next
  case (Cons u us)
  then obtain p1 where p1: "apply_update e u p = Some p1" using apply_update_plain[of e u p] by auto
  from Cons obtain p' where "apply_updates e us p1 = Some p'" by fastforce
  with p1 show ?case by simp
qed

lemma apply_update_name:
  "apply_update e u p = Some p' \<Longrightarrow> update_key u \<noteq> ''name'' \<Longrightarrow> name p' = name p"
  by (cases u) (auto split: if_splits)

lemma apply_updates_name:
  "apply_updates e us p = Some p' \<Longrightarrow> \<forall>u \<in> set us. update_key u \<noteq> ''name'' \<Longrightarrow> name p' = name p"
proof (induction us arbitrary: p)
  case Nil
  then show ?case by simp
next
  case (Cons u us)
  from Cons.prems(1) obtain p1 where p1: "apply_update e u p = Some p1" "apply_updates e us p1 = Some p'"
    by (cases "apply_update e u p") simp_all
  have "name p1 = name p" using apply_update_name[OF p1(1)] Cons.prems(2) by simp
  moreover have "name p' = name p1" using Cons.IH[OF p1(2)] Cons.prems(2) by simp
  ultimately show ?case by simp
qed

lemma update_project_effect:
  assumes gp: "get_project (pr_view e s) n = Some p"
    and ap: "apply_updates e updates p = Some p1"
  shows "\<exists>res s'. update_project e n updates s = Some (res, s') \<and>
           pr_registry s' =
             Some (touch_metadata e ''update_project''
               ((pr_view e s)\<lparr>projects :=
                  dict_set n (p1\<lparr>updated_at := now_iso e\<rparr>) (projects (pr_view e s))\<rparr>)) \<and>
           (\<forall>r. res = Inr r \<longrightarrow> r = p1\<lparr>updated_at := now_iso e\<rparr>)"
proof -
  obtain reg s1 where g: "pr_get e s = Inr (reg, s1)"
  proof (cases "pr_get e s")
    case (Inl err)
    then have "get_project (pr_view e s) n = None"
      by (simp add: pr_view_error get_project_def dict_get_def)
    with gp show ?thesis by simp
  next
    case (Inr pr)
    then show ?thesis using that by (cases pr) simp
  qed
  have r: "reg = pr_view e s" using g by (rule pr_get_view)
  let ?p2 = "p1\<lparr>updated_at := now_iso e\<rparr>"
  let ?reg1 = "reg\<lparr>projects := dict_set n ?p2 (projects reg)\<rparr>"
  obtain failed s2 where sv: "pr_save e ''update_project'' ?reg1 s1 = (failed, s2)"
    by (cases "pr_save e ''update_project'' ?reg1 s1")
  have res: "update_project e n updates s =
      Some (case failed of Some err \<Rightarrow> (Inl err, s2) | None \<Rightarrow> (Inr ?p2, s2))"
    using gp ap g sv by (cases failed) (simp_all add: update_project_def r[symmetric] Let_def)
  show ?thesis
  proof (cases failed)
    case None
    with res pr_save_registry[OF sv] show ?thesis unfolding r by simp
  next
    case (Some err)
    with res pr_save_registry[OF sv] show ?thesis unfolding r by simp
  qed
qed

text \<open>
  Claim C8, as the code has it. For every registered project and every patch whose keys
  are fields of the project or names for which \<open>hasattr\<close> is false, \<open>update_project\<close>
  leaves the keys of the projects map as they were and the project stored under its
  key, and when the patch has no key \<open>name\<close> the project's name field after the update
  equals its name before. (A patch with the key \<open>name\<close> is applied like any other
  field, and a patch with a key such as \<open>__dict__\<close> can replace every field.)
\<close>

theorem update_project_keeps_name:
  assumes "get_project (pr_view e s) n = Some p"
    and "\<forall>u \<in> set updates. plain_key e u"
  shows "\<exists>res s'. update_project e n updates s = Some (res, s') \<and>
           dict_keys (projects (pr_view e s')) = dict_keys (projects (pr_view e s)) \<and>
           (\<exists>p'. get_project (pr_view e s') n = Some p' \<and>
                  ((\<forall>u \<in> set updates. update_key u \<noteq> ''name'') \<longrightarrow> name p' = name p) \<and>
                  (\<forall>r. res = Inr r \<longrightarrow> r = p'))"
proof -
  obtain p1 where ap: "apply_updates e updates p = Some p1"
    using apply_updates_plain[OF assms(2)] by blast
  let ?p2 = "p1\<lparr>updated_at := now_iso e\<rparr>"
  from update_project_effect[OF assms(1) ap] obtain res s' where
    u: "update_project e n updates s = Some (res, s')" and
    c: "pr_registry s' =
           Some (touch_metadata e ''update_project''
             ((pr_view e s)\<lparr>projects := dict_set n ?p2 (projects (pr_view e s))\<rparr>))"
    and d: "\<forall>r. res = Inr r \<longrightarrow> r = ?p2" by blast
  have k: "n \<in> set (dict_keys (projects (pr_view e s)))"
    using assms(1) by (auto simp: get_project_def dest: dict_get_in_keys)
  have nm: "(\<forall>u \<in> set updates. update_key u \<noteq> ''name'') \<longrightarrow> name ?p2 = name p"
    using apply_updates_name[OF ap] by simp
  have v: "projects (pr_view e s') = dict_set n ?p2 (projects (pr_view e s))"
    using pr_view_of_cached[OF c] by simp
  have g: "get_project (pr_view e s') n = Some ?p2"
    by (simp add: get_project_def v dict_get_dict_set)
  have ks: "dict_keys (projects (pr_view e s')) = dict_keys (projects (pr_view e s))"
    by (simp add: v dict_keys_dict_set_present[OF k])
  from u ks g nm d show ?thesis by blast
qed

lemma name_matches_app: "name_matches ''app''"
  by (simp add: name_matches_def is_lower_def name_char_def less_eq_char_def)

lemma post_init_demo: "post_init demo_project = Inr demo_project"
  by (simp add: post_init_def demo_project_def name_matches_app truthy_str_def)

lemma load_demo: "load e (Some (Intact demo_registry)) = Inr demo_registry"
  by (simp add: load_def from_dict_def demo_registry_def post_init_demo)

lemma pr_get_demo:
  "pr_get quiet_env demo_state = Inr (demo_registry, demo_state\<lparr>pr_registry := Some demo_registry\<rparr>)"
  by (simp add: pr_get_def demo_state_def fixture_state_def load_demo)

lemma pr_view_demo: "pr_view quiet_env demo_state = demo_registry"
  by (simp add: pr_view_def pr_get_demo)

lemma update_project_demo:
  assumes "apply_updates quiet_env updates demo_project = Some p1"
  shows "\<exists>s'. update_project quiet_env ''app'' updates demo_state =
           Some (Inr (p1\<lparr>updated_at := now_iso quiet_env\<rparr>), s')"
proof -
  have s: "fst (pr_save quiet_env m reg st) = None" for m reg st
    by (rule pr_save_succeeds) (simp_all add: quiet_env_simps)
  let ?reg1 = "demo_registry\<lparr>projects :=
      dict_set ''app'' (p1\<lparr>updated_at := now_iso quiet_env\<rparr>) (projects demo_registry)\<rparr>"
  obtain failed s2 where sv:
    "pr_save quiet_env ''update_project'' ?reg1 (demo_state\<lparr>pr_registry := Some demo_registry\<rparr>) = (failed, s2)"
    by (cases "pr_save quiet_env ''update_project'' ?reg1 (demo_state\<lparr>pr_registry := Some demo_registry\<rparr>)")
  have "failed = None"
    using s[of "''update_project''" ?reg1 "demo_state\<lparr>pr_registry := Some demo_registry\<rparr>"] sv by simp
  with sv assms show ?thesis
    by (simp add: update_project_def pr_get_demo get_project_demo Let_def)
qed

theorem update_project_keeps_name_witness:
  "\<exists>res s'. update_project quiet_env ''app'' [Set_description (Some ''demo''), Other_key ''color''] demo_state =
              Some (res, s') \<and>
     res = Inr (demo_project\<lparr>description := Some ''demo'', updated_at := now_iso quiet_env\<rparr>) \<and>
     (\<exists>p'. get_project (pr_view quiet_env s') ''app'' = Some p' \<and> name p' = ''app'')"
proof -
  have a: "get_project (pr_view quiet_env demo_state) ''app'' = Some demo_project"
    by (simp add: pr_view_demo get_project_demo)
  have b: "\<forall>u \<in> set [Set_description (Some ''demo''), Other_key ''color'']. plain_key quiet_env u"
    by (simp add: plain_key_def field_names_def quiet_env_def)
  have c: "\<forall>u \<in> set [Set_description (Some ''demo''), Other_key ''color'']. update_key u \<noteq> ''name''"
    by simp
  have n: "name demo_project = ''app''" by (simp add: demo_project_def)
  have ap: "apply_updates quiet_env [Set_description (Some ''demo''), Other_key ''color''] demo_project =
      Some (demo_project\<lparr>description := Some ''demo''\<rparr>)"
    by (simp add: field_names_def quiet_env_def)
  from update_project_demo[OF ap] obtain s0 where
    run: "update_project quiet_env ''app'' [Set_description (Some ''demo''), Other_key ''color''] demo_state =
       Some (Inr (demo_project\<lparr>description := Some ''demo'', updated_at := now_iso quiet_env\<rparr>), s0)"
    by blast
  from update_project_keeps_name[OF a b] c n run
  show ?thesis by auto
qed

text \<open>
  A patch with the key \<open>name\<close> renames the project in place: it stays under the key
  \<open>app\<close> and its name field reads \<open>other\<close>.
\<close>

theorem update_project_renames_counterexample:
  "get_project (pr_view quiet_env demo_state) ''app'' = Some demo_project \<and>
   name demo_project = ''app'' \<and>
   (\<exists>s'. update_project quiet_env ''app'' [Set_name ''other''] demo_state =
            Some (Inr (demo_project\<lparr>name := ''other'', updated_at := now_iso quiet_env\<rparr>), s') \<and>
          get_project (pr_view quiet_env s') ''app'' =
            Some (demo_project\<lparr>name := ''other'', updated_at := now_iso quiet_env\<rparr>))"
proof -
  have a: "get_project (pr_view quiet_env demo_state) ''app'' = Some demo_project"
    by (simp add: pr_view_demo get_project_demo)
  have n: "name demo_project = ''app''" by (simp add: demo_project_def)
  have ap: "apply_updates quiet_env [Set_name ''other''] demo_project = Some (demo_project\<lparr>name := ''other''\<rparr>)"
    by simp
  from update_project_demo[OF ap] obtain s0 where
    run: "update_project quiet_env ''app'' [Set_name ''other''] demo_state =
       Some (Inr (demo_project\<lparr>name := ''other'', updated_at := now_iso quiet_env\<rparr>), s0)"
    by blast
  from update_project_effect[OF a ap] run have
    c: "pr_registry s0 =
      Some (touch_metadata quiet_env ''update_project''
        ((pr_view quiet_env demo_state)\<lparr>projects :=
           dict_set ''app'' (demo_project\<lparr>name := ''other'', updated_at := now_iso quiet_env\<rparr>)
             (projects (pr_view quiet_env demo_state))\<rparr>))"
    by auto
  have "get_project (pr_view quiet_env s0) ''app'' =
      Some (demo_project\<lparr>name := ''other'', updated_at := now_iso quiet_env\<rparr>)"
    by (simp add: pr_view_of_cached[OF c] get_project_def dict_get_dict_set)
  with a n run show ?thesis by blast
qed

section \<open>Properties of the backup rotation\<close>

lemma dict_keys_fold_pop:
  "dict_keys (fold dict_pop ks d) = filter (\<lambda>k. k \<notin> set ks) (dict_keys d)"
  by (simp add: fold_dict_pop dict_keys_def filter_map comp_def)

lemma listed_backups_fold_pop:
  "listed_backups (fold dict_pop ks d) = filter (\<lambda>k. k \<notin> set ks) (listed_backups d)"
proof -
  have "filter is_backup_name (filter (\<lambda>k. k \<notin> set ks) (dict_keys d)) =
        filter (\<lambda>k. k \<notin> set ks) (filter is_backup_name (dict_keys d))"
    by (simp add: conj_commute)
  then show ?thesis
    by (simp only: listed_backups_def dict_keys_fold_pop filter_sort)
qed

lemma filter_not_in_take:
  assumes "distinct bs"
  shows "filter (\<lambda>k. k \<notin> set (take m bs)) bs = drop m bs"
proof -
  have d: "distinct (take m bs @ drop m bs)" using assms by simp
  then have disj: "set (take m bs) \<inter> set (drop m bs) = {}" by (simp only: distinct_append)
  have a: "filter (\<lambda>k. k \<notin> set (take m bs)) (take m bs) = []"
    by (simp add: filter_empty_conv)
  have b: "filter (\<lambda>k. k \<notin> set (take m bs)) (drop m bs) = drop m bs"
    using disj by (auto simp: filter_id_conv)
  have "filter (\<lambda>k. k \<notin> set (take m bs)) (take m bs @ drop m bs) = drop m bs"
    by (simp only: filter_append a b append_Nil)
  then show ?thesis by simp
qed

lemma dict_keys_dict_set:
  "dict_keys (dict_set k v d) = (if k \<in> set (dict_keys d) then dict_keys d else dict_keys d @ [k])"
  by (induction d) (auto simp: dict_keys_def)

lemma distinct_keys_dict_set:
  "distinct (dict_keys d) \<Longrightarrow> distinct (dict_keys (dict_set k v d))"
  by (simp add: dict_keys_dict_set)

lemma distinct_listed_backups:
  "distinct (dict_keys d) \<Longrightarrow> distinct (listed_backups d)"
  by (simp add: listed_backups_def)

lemma dict_get_fold_pop:
  "k \<notin> set ks \<Longrightarrow> dict_get k (fold dict_pop ks d) = dict_get k d"
  unfolding fold_dict_pop dict_get_def by (induction d) auto

lemma is_backup_name_backup_name: "is_backup_name (backup_name e)"
  by (simp add: is_backup_name_def backup_name_def)

lemma create_backup_rotation:
  assumes "registry_file s = Some doc" and "distinct (dict_keys (backup_files s))"
    and "create_backup e s = (None, s')"
  shows "listed_backups (backup_files s') =
           drop (length (listed_backups (dict_set (backup_name e) doc (backup_files s))) - 10)
             (listed_backups (dict_set (backup_name e) doc (backup_files s))) \<and>
         (\<forall>k \<in> set (listed_backups (backup_files s')).
            dict_get k (backup_files s') = dict_get k (dict_set (backup_name e) doc (backup_files s)))"
proof -
  let ?placed = "dict_set (backup_name e) doc (backup_files s)"
  let ?bs = "listed_backups ?placed"
  let ?old = "take (length ?bs - 10) ?bs"
  have bf: "backup_files s' = fold dict_pop ?old ?placed"
    using assms(1,3) by (auto simp: create_backup_def Let_def split: write_outcome.splits)
  have dist: "distinct ?bs"
    using assms(2) by (intro distinct_listed_backups distinct_keys_dict_set)
  have l: "listed_backups (backup_files s') = drop (length ?bs - 10) ?bs"
    by (simp only: bf listed_backups_fold_pop filter_not_in_take[OF dist])
  have "dict_get k (backup_files s') = dict_get k ?placed"
    if "k \<in> set (listed_backups (backup_files s'))" for k
  proof -
    from that have "k \<in> set (filter (\<lambda>k. k \<notin> set ?old) ?bs)"
      by (simp only: bf listed_backups_fold_pop)
    then have "k \<notin> set ?old" by simp
    then show ?thesis by (simp add: bf dict_get_fold_pop)
  qed
  with l show ?thesis by blast
qed

text \<open>
  Claim C3, as the code has it. Every write of the registry file made by the save of the
  \<open>ProjectRegistry\<close> manager (the write that ends a registration, an update and a
  removal) while a registry file exists first copies that file into the backup directory
  under \<open>projects_<stamp>.json\<close>, the stamp having one-second resolution, and then
  keeps only the ten lexicographically greatest backup names; the retained backups hold
  what they held after the copy. (The writes of \<open>allocate_ports\<close> and
  \<open>release_ports\<close> go through the save of the port manager, which makes no backup.)
\<close>

theorem pr_save_backup_rotation:
  assumes "registry_file s = Some doc" and "distinct (dict_keys (backup_files s))"
    and "pr_save e modified_by reg s = (None, s')"
  shows "dict_get (backup_name e) (dict_set (backup_name e) doc (backup_files s)) = Some doc \<and>
         is_backup_name (backup_name e) \<and>
         listed_backups (backup_files s') =
           drop (length (listed_backups (dict_set (backup_name e) doc (backup_files s))) - 10)
             (listed_backups (dict_set (backup_name e) doc (backup_files s))) \<and>
         length (listed_backups (backup_files s')) \<le> 10 \<and>
         (\<forall>k \<in> set (listed_backups (backup_files s')).
            dict_get k (backup_files s') = dict_get k (dict_set (backup_name e) doc (backup_files s))) \<and>
         registry_file s' = Some (Intact (touch_metadata e modified_by reg))"
proof -
  let ?s1 = "s\<lparr>pr_registry := Some (touch_metadata e modified_by reg)\<rparr>"
  obtain r0 s2 where cb0: "create_backup e ?s1 = (r0, s2)" by (cases "create_backup e ?s1")
  have r0: "r0 = None" using assms(3) cb0 by (cases r0) (simp_all add: pr_save_def Let_def)
  have cb: "create_backup e ?s1 = (None, s2)" using cb0 r0 by simp
  have "write_registry e RegistryWrite (touch_metadata e modified_by reg) s2 = (None, s')"
    using assms(3) cb by (simp add: pr_save_def Let_def)
  then have s': "s' = s2\<lparr>registry_file := Some (Intact (touch_metadata e modified_by reg))\<rparr>"
    by (auto simp: write_registry_def split: write_outcome.splits)
  have f1: "registry_file ?s1 = Some doc" using assms(1) by simp
  have d1: "distinct (dict_keys (backup_files ?s1))" using assms(2) by simp
  from create_backup_rotation[OF f1 d1 cb]
  have r: "listed_backups (backup_files s2) =
           drop (length (listed_backups (dict_set (backup_name e) doc (backup_files s))) - 10)
             (listed_backups (dict_set (backup_name e) doc (backup_files s)))"
    and g: "\<forall>k \<in> set (listed_backups (backup_files s2)).
            dict_get k (backup_files s2) = dict_get k (dict_set (backup_name e) doc (backup_files s))"
    by simp_all
  have len: "length (listed_backups (backup_files s2)) \<le> 10"
    by (simp add: r)
  show ?thesis
    using r g len by (simp add: s' dict_get_dict_set is_backup_name_backup_name)
qed

theorem pr_save_backup_rotation_witness:
  "listed_backups (backup_files (snd (pr_save quiet_env ''update_project'' fixture_registry fixture_state))) =
     [''projects_20240101_000000.json''] \<and>
   dict_get ''projects_20240101_000000.json''
     (backup_files (snd (pr_save quiet_env ''update_project'' fixture_registry fixture_state))) =
     Some (Intact fixture_registry)"
proof -
  have f: "registry_file fixture_state = Some (Intact fixture_registry)"
    by (simp add: fixture_state_def)
  have d: "distinct (dict_keys (backup_files fixture_state))"
    by (simp add: fixture_state_def dict_keys_def)
  have "fst (pr_save quiet_env ''update_project'' fixture_registry fixture_state) = None"
    by (rule pr_save_succeeds) (simp_all add: quiet_env_simps)
  then have sv: "pr_save quiet_env ''update_project'' fixture_registry fixture_state =
      (None, snd (pr_save quiet_env ''update_project'' fixture_registry fixture_state))"
    by (metis prod.collapse)
  have n: "backup_name quiet_env = ''projects_20240101_000000.json''"
    by (simp add: backup_name_def quiet_env_simps)
  have b: "backup_files fixture_state = []" by (simp add: fixture_state_def)
  have l: "listed_backups [(''projects_20240101_000000.json'', Intact fixture_registry)] =
      [''projects_20240101_000000.json'']"
    using is_backup_name_backup_name[of quiet_env] by (simp add: listed_backups_def dict_keys_def n)
  from pr_save_backup_rotation[OF f d sv] show ?thesis
    by (simp add: n b l dict_get_def)
qed

text \<open>
  \<open>allocate_ports\<close> on the fixture writes the registry file, which existed before, and
  the backup directory stays empty.
\<close>

theorem allocation_write_without_backup_counterexample:
  "registry_file fixture_state = Some (Intact fixture_registry) \<and>
   registry_file (snd (allocate_ports quiet_env ''app'' True True fixture_state)) =
     Some (Intact granted_registry) \<and>
   backup_files (snd (allocate_ports quiet_env ''app'' True True fixture_state)) = []"
  by (simp add: allocate_fixture) (simp add: fixture_state_def)

section \<open>Properties of registration\<close>

lemma pr_save_written:
  assumes "pr_save e modified_by reg s = (None, s')"
  shows "registry_file s' = Some (Intact (touch_metadata e modified_by reg)) \<and>
         pm_registry s' = pm_registry s \<and> env_files s' = env_files s"
proof -
  let ?s1 = "s\<lparr>pr_registry := Some (touch_metadata e modified_by reg)\<rparr>"
  obtain r0 s2 where cb: "create_backup e ?s1 = (r0, s2)" by (cases "create_backup e ?s1")
  have r0: "r0 = None" using assms cb by (cases r0) (simp_all add: pr_save_def Let_def)
  have "write_registry e RegistryWrite (touch_metadata e modified_by reg) s2 = (None, s')"
    using assms cb r0 by (simp add: pr_save_def Let_def)
  then have s': "s' = s2\<lparr>registry_file := Some (Intact (touch_metadata e modified_by reg))\<rparr>"
    by (auto simp: write_registry_def split: write_outcome.splits)
  from create_backup_keeps[OF cb] show ?thesis by (simp add: s')
qed

lemma pr_save_quiet:
  "pr_save quiet_env m reg s = (None, snd (pr_save quiet_env m reg s))"
proof -
  have "fst (pr_save quiet_env m reg s) = None"
    by (rule pr_save_succeeds) (simp_all add: quiet_env_simps)
  then show ?thesis by (metis prod.collapse)
qed

lemma pr_get_fixture:
  "pr_get quiet_env fixture_state = Inr (fixture_registry, fixture_state\<lparr>pr_registry := Some fixture_registry\<rparr>)"
  by (simp add: pr_get_def fixture_state_def load_def from_dict_no_projects fixture_registry_simps)

lemma allocate_backend_fixture:
  "allocate_ports quiet_env n False True (fixture_state\<lparr>pr_registry := Some fixture_registry\<rparr>) =
     (Inr \<lparr>fe_port = None, be_port = Some 8000\<rparr>,
      fixture_state\<lparr>pr_registry := Some fixture_registry,
                    pm_registry := Some (with_allocated [(''8000'', n)] fixture_registry),
                    registry_file := Some (Intact (with_allocated [(''8000'', n)] fixture_registry))\<rparr>)"
proof -
  have g: "pm_get quiet_env (fixture_state\<lparr>pr_registry := Some fixture_registry\<rparr>) =
      Inr (fixture_registry,
           fixture_state\<lparr>pr_registry := Some fixture_registry, pm_registry := Some fixture_registry\<rparr>)"
    by (simp add: pm_get_def fixture_state_def load_def from_dict_no_projects fixture_registry_simps)
  have f: "find_available_backend_port quiet_env fixture_registry [] = Inr (Some 8000)"
    by (simp add: port_tests find_available_port_take quiet_env_simps fixture_registry_simps)
  have gr: "grant 8000 n fixture_registry = with_allocated [(''8000'', n)] fixture_registry"
    by (simp add: grant_def py_str_ports fixture_registry_simps)
  show ?thesis
    by (simp add: allocate_ports_def g f gr write_registry_quiet grant_step_def)
qed

lemma backend_args_simps:
  "arg_name (backend_args n) = n"
  "arg_path (backend_args n) = ''/srv/app''"
  "arg_display_name (backend_args n) = None"
  "arg_description (backend_args n) = None"
  "frontend_command (backend_args n) = None"
  "backend_command (backend_args n) = Some ''python main.py''"
  "frontend_cwd (backend_args n) = None"
  "backend_cwd (backend_args n) = None"
  "arg_env_vars (backend_args n) = None"
  "arg_tags (backend_args n) = None"
  "auto_allocate_ports (backend_args n) = True"
  by (simp_all add: backend_args_def)

lemma fixture_settings:
  "default_tags (settings fixture_registry) = [''test'']"
  "auto_generate_env (settings fixture_registry) = False"
  by (simp_all add: fixture_registry_def)

lemma default_display_name_app: "default_display_name ''app'' = ''App''"
  by (simp add: default_display_name_def py_title_def is_lower_def is_upper_def to_upper_def
      to_lower_def less_eq_char_def)

lemma name_matches_My_App: "\<not> name_matches ''My-App''"
  by (simp add: name_matches_def is_lower_def less_eq_char_def)

text \<open>
  Claim C2 fails on the code. Registering \<open>app\<close> with a backend command on the fixture
  succeeds and the project's backend holds port 8000, which the port manager records in
  its own registry object; the document the registration leaves on disk is the manager's
  registry object, whose allocated map is still empty, so reloading the file yields no
  entry for port 8000.
\<close>

theorem register_project_loses_allocation:
  "(case fst (register_project quiet_env (backend_args ''app'') fixture_state) of
      Inl err \<Rightarrow> False
    | Inr p \<Rightarrow> name p = ''app'' \<and> service_ports p = [8000]) \<and>
   allocated_of (pm_view quiet_env (snd (register_project quiet_env (backend_args ''app'') fixture_state))) =
     [(''8000'', ''app'')] \<and>
   (case load quiet_env
           (registry_file (snd (register_project quiet_env (backend_args ''app'') fixture_state))) of
      Inl err \<Rightarrow> False
    | Inr doc \<Rightarrow> allocated_of doc = [] \<and> dict_get (py_str 8000) (allocated_of doc) = None)"
proof -
  let ?svc = "\<lparr>enabled = True, port = Some 8000, command = ''python main.py'', cwd = None,
               env = [], health_check = None\<rparr>"
  let ?p = "\<lparr>name = ''app'', path = ''/srv/app'', display_name = Some ''App'',
             description = None, frontend = None, backend = Some ?svc, env_vars = [],
             dependencies = [], tags = [''test''], created_at = ''2024-01-01T00:00:00'',
             updated_at = ''2024-01-01T00:00:00'', project_notes = None\<rparr>"
  let ?reg1 = "fixture_registry\<lparr>projects := [(''app'', ?p)]\<rparr>"
  let ?s2 = "fixture_state\<lparr>pr_registry := Some fixture_registry,
                    pm_registry := Some (with_allocated [(''8000'', ''app'')] fixture_registry),
                    registry_file := Some (Intact (with_allocated [(''8000'', ''app'')] fixture_registry))\<rparr>"
  obtain s3 where sv: "pr_save quiet_env ''register_project'' ?reg1 ?s2 = (None, s3)"
    using pr_save_quiet by blast
  have np: "new_project quiet_env ''app'' ''/srv/app'' None None None (Some ?svc) [] [''test''] = Inr ?p"
    by (simp add: new_project_def post_init_def name_matches_app truthy_str_def
        default_display_name_app quiet_env_simps)
  have run: "register_project quiet_env (backend_args ''app'') fixture_state = (Inr ?p, s3)"
    by (simp add: register_project_def finish_registration_def pr_get_fixture backend_args_simps fixture_registry_simps
        dict_contains_def dict_keys_def quiet_env_simps allocate_backend_fixture service_for_def
        fixture_settings np sv Let_def)
  from pr_save_written[OF sv]
  have w: "registry_file s3 = Some (Intact (touch_metadata quiet_env ''register_project'' ?reg1))"
    and m: "pm_registry s3 = Some (with_allocated [(''8000'', ''app'')] fixture_registry)"
    by simp_all
  have pi: "post_init ?p = Inr ?p"
    by (simp add: post_init_def name_matches_app truthy_str_def)
  have ld: "load quiet_env (Some (Intact (touch_metadata quiet_env ''register_project'' ?reg1))) =
      Inr (touch_metadata quiet_env ''register_project'' ?reg1)"
    by (simp add: load_def from_dict_def pi)
  have a: "allocated_of (touch_metadata quiet_env ''register_project'' ?reg1) = []"
    using fixture_registry_simps(3) by (simp add: allocated_of_def touch_metadata_def)
  show ?thesis
    by (simp add: run w ld a service_ports_def pm_view_of_cached[OF m] dict_get_def)
qed

lemma pm_get_frame:
  "pm_get e s = Inr (reg, s1) \<Longrightarrow>
   pr_registry s1 = pr_registry s \<and> backup_files s1 = backup_files s \<and>
   env_files s1 = env_files s \<and> registry_file s1 = registry_file s"
  by (auto simp: pm_get_def split: option.splits sum.splits)

lemma write_registry_frame:
  "write_registry e pt reg s = (r, s') \<Longrightarrow>
   backup_files s' = backup_files s \<and> env_files s' = env_files s \<and>
   (\<forall>err. r = Some err \<longrightarrow> err = OSError)"
  by (auto simp: write_registry_def split: write_outcome.splits)

lemma allocate_ports_frame:
  assumes "allocate_ports e n nf nb s = (res, s')"
  shows "pr_registry s' = pr_registry s \<and> backup_files s' = backup_files s \<and> env_files s' = env_files s \<and>
         (\<forall>err. res = Inl err \<and> err \<noteq> OSError \<longrightarrow> registry_file s' = registry_file s)"
proof (cases "pm_get e s")
  case (Inl err)
  with assms show ?thesis by (simp add: allocate_ports_def)
next
  case (Inr pr)
  obtain reg0 s1 where g: "pm_get e s = Inr (reg0, s1)" using Inr by (cases pr) simp
  note f = pm_get_frame[OF g]
  have fin: ?thesis
    if "(case write_registry e PortManagerWrite reg2 (s1\<lparr>pm_registry := Some reg2\<rparr>) of
           (Some err, s') \<Rightarrow> (Inl err, s'\<lparr>pm_registry := Some (rollback ports2 reg2)\<rparr>)
         | (None, s') \<Rightarrow> (Inr r, s')) = (res, s')" for reg2 ports2 r
  proof -
    obtain w sw where w: "write_registry e PortManagerWrite reg2 (s1\<lparr>pm_registry := Some reg2\<rparr>) = (w, sw)"
      by (cases "write_registry e PortManagerWrite reg2 (s1\<lparr>pm_registry := Some reg2\<rparr>)")
    from write_registry_frame[OF w] write_registry_cached[OF w] that w f show ?thesis
      by (cases w) auto
  qed
  have stop: ?thesis if "(res, s') = (Inl err, s1\<lparr>pm_registry := Some r\<rparr>)" for err r
    using that f by simp
  obtain fe_step where fs: "fe_step =
            (if nf then grant_step (find_available_frontend_port e reg0 []) n [] reg0
             else Inr (None, [], reg0))" by simp
  show ?thesis
  proof (cases fe_step)
    case (Inl x)
    obtain err ports reg where x: "x = (err, ports, reg)" by (cases x)
    have "(res, s') = (Inl err, s1\<lparr>pm_registry := Some (rollback ports reg)\<rparr>)"
      using assms g Inl x fs by (simp add: allocate_ports_def Let_def)
    then show ?thesis by (rule stop)
  next
    case (Inr y)
    obtain fe ports1 reg1 where y: "y = (fe, ports1, reg1)" by (cases y)
    obtain be_step where bs: "be_step =
            (if nb then grant_step (find_available_backend_port e reg1 []) n ports1 reg1
             else Inr (None, ports1, reg1))" by simp
    show ?thesis
    proof (cases be_step)
      case bl: (Inl x)
      obtain err ports reg where x: "x = (err, ports, reg)" by (cases x)
      have "(res, s') = (Inl err, s1\<lparr>pm_registry := Some (rollback ports reg)\<rparr>)"
        using assms g Inr y fs bl x bs by (simp add: allocate_ports_def Let_def)
      then show ?thesis by (rule stop)
    next
      case br: (Inr z)
      obtain be ports2 reg2 where z: "z = (be, ports2, reg2)" by (cases z)
      have "(case write_registry e PortManagerWrite reg2 (s1\<lparr>pm_registry := Some reg2\<rparr>) of
           (Some err, s') \<Rightarrow> (Inl err, s'\<lparr>pm_registry := Some (rollback ports2 reg2)\<rparr>)
         | (None, s') \<Rightarrow> (Inr \<lparr>fe_port = fe, be_port = be\<rparr>, s')) = (res, s')"
        using assms g Inr y fs br z bs by (simp add: allocate_ports_def Let_def)
      then show ?thesis by (rule fin)
    qed
  qed
qed

lemma create_backup_error: "create_backup e s = (Some err, s') \<Longrightarrow> err = OSError"
  by (auto simp: create_backup_def Let_def split: option.splits write_outcome.splits)

lemma pr_save_error:
  assumes "pr_save e m reg s = (Some err, s')"
  shows "err = OSError"
proof -
  let ?s1 = "s\<lparr>pr_registry := Some (touch_metadata e m reg)\<rparr>"
  obtain r0 s2 where cb: "create_backup e ?s1 = (r0, s2)" by (cases "create_backup e ?s1")
  show ?thesis
  proof (cases r0)
    case None
    then have "write_registry e RegistryWrite (touch_metadata e m reg) s2 = (Some err, s')"
      using assms cb by (simp add: pr_save_def Let_def)
    from write_registry_frame[OF this] show ?thesis by simp
  next
    case (Some x)
    then have "x = err" using assms cb by (simp add: pr_save_def Let_def)
    with create_backup_error[of e ?s1 x s2] cb Some show ?thesis by simp
  qed
qed

lemma generate_env_file_error: "generate_env_file e reg p s = (Some err, s') \<Longrightarrow> err = OSError"
  by (auto simp: generate_env_file_def split: write_outcome.splits)

lemma new_project_error: "new_project e n p dn d fe be ev tg = Inl err \<Longrightarrow> err = ValueError"
  by (auto simp: new_project_def post_init_def split: if_splits)

lemma pr_get_frame:
  "pr_get e s = Inr (reg, s1) \<Longrightarrow>
   pm_registry s1 = pm_registry s \<and> registry_file s1 = registry_file s \<and> pr_view e s1 = pr_view e s"
  by (auto simp: pr_get_def pr_view_def split: option.splits sum.splits)

lemma pm_view_cong:
  "pm_registry s1 = pm_registry s \<Longrightarrow> registry_file s1 = registry_file s \<Longrightarrow> pm_view e s1 = pm_view e s"
  by (simp add: pm_view_def pm_get_def split: option.splits sum.splits)

lemma pr_view_cong:
  "pr_registry s1 = pr_registry s \<Longrightarrow> registry_file s1 = registry_file s \<Longrightarrow> pr_view e s1 = pr_view e s"
  by (simp add: pr_view_def pr_get_def split: option.splits sum.splits)

lemma finish_registration_error:
  assumes "finish_registration e a reg pr s2 = (Inl err, s')"
  shows "err = ValueError \<or> err = OSError"
proof -
  let ?np = "new_project e (arg_name a) (path_absolute e (arg_path a))
                (arg_display_name a) (arg_description a)
                (service_for (frontend_command a) (fe_port pr) (frontend_cwd a))
                (service_for (backend_command a) (be_port pr) (backend_cwd a))
                (case arg_env_vars a of None \<Rightarrow> [] | Some v \<Rightarrow> v)
                (set_order e (default_tags (settings reg) @
                     (case arg_tags a of None \<Rightarrow> [] | Some t \<Rightarrow> t)))"
  show ?thesis
  proof (cases ?np)
    case (Inl x)
    then have "err = x" using assms by (simp add: finish_registration_def Let_def)
    with new_project_error[OF Inl] show ?thesis by simp
  next
    case (Inr project)
    let ?reg1 = "reg\<lparr>projects := dict_set (arg_name a) project (projects reg)\<rparr>"
    obtain failed s3 where sv: "pr_save e ''register_project'' ?reg1 s2 = (failed, s3)"
      by (cases "pr_save e ''register_project'' ?reg1 s2")
    show ?thesis
    proof (cases failed)
      case (Some x)
      then have "err = x" using assms Inr sv by (simp add: finish_registration_def Let_def)
      with pr_save_error[OF sv[unfolded Some]] show ?thesis by simp
    next
      case None
      obtain g s4 where ge: "generate_env_file e ?reg1 project s3 = (g, s4)"
        by (cases "generate_env_file e ?reg1 project s3")
      show ?thesis
      proof (cases g)
        case gN: None
        with assms Inr sv None ge show ?thesis
          by (simp add: finish_registration_def Let_def split: if_splits)
      next
        case (Some x)
        with assms Inr sv None ge have "err = x"
          by (simp add: finish_registration_def Let_def split: if_splits)
        with generate_env_file_error[OF ge[unfolded Some]] show ?thesis by simp
      qed
    qed
  qed
qed

text \<open>
  What holds of claim C4: a registration rejected because the name is taken, the path is
  invalid or a port range is exhausted leaves the projects map, the allocated map and the
  registry file as they were.
\<close>

lemma register_project_rejected_no_trace:
  assumes "register_project e a s = (Inl err, s')"
    and "err = ProjectExistsError \<or> err = InvalidPathError \<or> err = PortExhaustedError"
  shows "projects (pr_view e s') = projects (pr_view e s) \<and>
         allocated_of (pm_view e s') = allocated_of (pm_view e s) \<and>
         registry_file s' = registry_file s"
proof (cases "pr_get e s")
  case (Inl x)
  then have "s' = s" using assms(1) by (simp add: register_project_def)
  then show ?thesis by simp
next
  case (Inr pr0)
  obtain reg s1 where g: "pr_get e s = Inr (reg, s1)" using Inr by (cases pr0) simp
  note fr = pr_get_frame[OF g]
  have same1: "pm_view e s1 = pm_view e s" by (rule pm_view_cong) (simp_all add: fr)
  have early: ?thesis if "s' = s1"
    using that fr same1 by simp
  show ?thesis
  proof (cases "dict_contains (arg_name a) (projects reg)")
    case True
    then have "s' = s1" using assms(1) by (simp add: register_project_def g)
    then show ?thesis by (rule early)
  next
    case c1: False
    show ?thesis
    proof (cases "path_exists e (arg_path a)")
      case False
      then have "s' = s1" using assms(1) c1 by (simp add: register_project_def g)
      then show ?thesis by (rule early)
    next
      case c2: True
      show ?thesis
      proof (cases "path_is_dir e (arg_path a)")
        case False
        then have "s' = s1" using assms(1) c1 c2 by (simp add: register_project_def g)
        then show ?thesis by (rule early)
      next
        case c3: True
        let ?nf = "frontend_command a \<noteq> None"
        let ?nb = "backend_command a \<noteq> None"
        show ?thesis
        proof (cases "auto_allocate_ports a \<and> (?nf \<or> ?nb)")
          case noalloc: False
          have "finish_registration e a reg \<lparr>fe_port = None, be_port = None\<rparr> s1 = (Inl err, s')"
            using assms(1) c1 c2 c3 noalloc by (auto simp: register_project_def g Let_def)
          from finish_registration_error[OF this] assms(2) show ?thesis by auto
        next
          case alloc: True
          obtain ports s2 where al: "allocate_ports e (arg_name a) ?nf ?nb s1 = (ports, s2)"
            by (cases "allocate_ports e (arg_name a) ?nf ?nb s1")
          show ?thesis
          proof (cases ports)
            case (Inl err')
            have s': "s' = s2"
              using assms(1) c1 c2 c3 alloc al Inl by (simp add: register_project_def g Let_def)
            have ee: "err' = err"
              using assms(1) c1 c2 c3 alloc al Inl by (simp add: register_project_def g Let_def)
            then have "err' \<noteq> OSError" using assms(2) c1 by auto
            with allocate_ports_frame[OF al] Inl have
              f2: "pr_registry s2 = pr_registry s1" "registry_file s2 = registry_file s1" by auto
            have "allocated_of (pm_view e s2) = allocated_of (pm_view e s1)"
              using allocate_ports_cached[OF al] Inl by (auto simp: pm_view_of_cached)
            moreover have "pr_view e s2 = pr_view e s1" by (rule pr_view_cong) (simp_all add: f2)
            ultimately show ?thesis using fr same1 f2 by (simp add: s')
          next
            case (Inr pr)
            have "finish_registration e a reg pr s2 = (Inl err, s')"
              using assms(1) c1 c2 c3 alloc al Inr by (simp add: register_project_def g Let_def)
            from finish_registration_error[OF this] assms(2) show ?thesis by auto
          qed
        qed
      qed
    qed
  qed
qed

text \<open>
  Claim C4 fails on the code for a name the pattern rejects. Registering \<open>My-App\<close>
  with a backend command on the fixture raises \<open>ValueError\<close> only when the project
  object is built, after the allocation: port 8000 stays allocated to \<open>My-App\<close> in the
  port manager's map and in the registry file, although no project was created.
\<close>

theorem register_project_invalid_name_leaves_trace:
  "fst (register_project quiet_env (backend_args ''My-App'') fixture_state) = Inl ValueError \<and>
   projects (pr_view quiet_env (snd (register_project quiet_env (backend_args ''My-App'') fixture_state))) = [] \<and>
   allocated_of (pm_view quiet_env fixture_state) = [] \<and>
   allocated_of (pm_view quiet_env (snd (register_project quiet_env (backend_args ''My-App'') fixture_state))) =
     [(''8000'', ''My-App'')] \<and>
   registry_file fixture_state = Some (Intact fixture_registry) \<and>
   registry_file (snd (register_project quiet_env (backend_args ''My-App'') fixture_state)) =
     Some (Intact (with_allocated [(''8000'', ''My-App'')] fixture_registry))"
proof -
  let ?s2 = "fixture_state\<lparr>pr_registry := Some fixture_registry,
                    pm_registry := Some (with_allocated [(''8000'', ''My-App'')] fixture_registry),
                    registry_file := Some (Intact (with_allocated [(''8000'', ''My-App'')] fixture_registry))\<rparr>"
  have run: "register_project quiet_env (backend_args ''My-App'') fixture_state = (Inl ValueError, ?s2)"
    by (simp add: register_project_def finish_registration_def pr_get_fixture backend_args_simps fixture_registry_simps
        dict_contains_def dict_keys_def quiet_env_simps allocate_backend_fixture service_for_def
        fixture_settings new_project_def post_init_def name_matches_My_App Let_def)
  show ?thesis
    by (simp add: run pm_view_fixture fixture_registry_simps pr_view_of_cached pm_view_of_cached)
       (simp add: fixture_state_def)
qed

section \<open>Properties of the status reconciler\<close>

lemma service_if_enabled_present:
  "service_if_enabled out n svc = Inr st \<Longrightarrow>
   (st \<noteq> None) = (case svc of None \<Rightarrow> False | Some c \<Rightarrow> enabled c)"
  by (auto simp: service_if_enabled_def split: option.splits sum.splits if_splits)

lemma overall_of_Partial:
  assumes "overall_of ss = Partial"
  shows "Online \<in> set ss \<and> (Stopped \<in> set ss \<or> Not_started \<in> set ss) \<and> Errored \<notin> set ss"
proof -
  from assms have ne: "ss \<noteq> []"
    and a: "\<not> (\<forall>s \<in> set ss. s = Online)"
    and b: "\<not> (\<forall>s \<in> set ss. s = Stopped \<or> s = Not_started)"
    and c: "Errored \<notin> set ss"
    by (auto simp: overall_of_def list_all_iff list_ex_iff split: if_splits)
  have four: "s = Online \<or> s = Stopped \<or> s = Errored \<or> s = Not_started" for s :: service_state
    by (cases s) simp_all
  from a obtain x where x: "x \<in> set ss" "x \<noteq> Online" by blast
  from b obtain y where y: "y \<in> set ss" "y \<noteq> Stopped" "y \<noteq> Not_started" by blast
  have "x = Stopped \<or> x = Not_started" using four[of x] x c by auto
  moreover have "y = Online" using four[of y] y c by auto
  ultimately show ?thesis using x y c by auto
qed

lemma overall_of_cases:
  "(ss = [] \<longrightarrow> overall_of ss = All_stopped) \<and>
   (ss \<noteq> [] \<and> (\<forall>s \<in> set ss. s = Online) \<longrightarrow> overall_of ss = Running) \<and>
   (ss \<noteq> [] \<and> (\<forall>s \<in> set ss. s = Stopped \<or> s = Not_started) \<longrightarrow> overall_of ss = All_stopped) \<and>
   (Errored \<in> set ss \<longrightarrow> overall_of ss = Error_state) \<and>
   (Online \<in> set ss \<and> (Stopped \<in> set ss \<or> Not_started \<in> set ss) \<and> Errored \<notin> set ss
      \<longrightarrow> overall_of ss = Partial) \<and>
   (overall_of ss = Partial \<longrightarrow>
      Online \<in> set ss \<and> (Stopped \<in> set ss \<or> Not_started \<in> set ss) \<and> Errored \<notin> set ss)"
proof (intro conjI impI)
  show "overall_of ss = All_stopped" if "ss = []"
    using that by (simp add: overall_of_def)
  show "overall_of ss = Running" if "ss \<noteq> [] \<and> (\<forall>s \<in> set ss. s = Online)"
    using that by (simp add: overall_of_def list_all_iff)
  show "overall_of ss = All_stopped" if "ss \<noteq> [] \<and> (\<forall>s \<in> set ss. s = Stopped \<or> s = Not_started)"
  proof -
    from that obtain x where "x \<in> set ss" by (cases ss) auto
    with that have "\<not> (\<forall>s \<in> set ss. s = Online)" by auto
    with that show ?thesis by (simp add: overall_of_def list_all_iff)
  qed
  show "overall_of ss = Error_state" if "Errored \<in> set ss"
  proof -
    from that have "ss \<noteq> []" "\<not> (\<forall>s \<in> set ss. s = Online)"
      "\<not> (\<forall>s \<in> set ss. s = Stopped \<or> s = Not_started)" by auto
    with that show ?thesis by (simp add: overall_of_def list_all_iff list_ex_iff)
  qed
  show "overall_of ss = Partial"
    if "Online \<in> set ss \<and> (Stopped \<in> set ss \<or> Not_started \<in> set ss) \<and> Errored \<notin> set ss"
  proof -
    from that have "ss \<noteq> []" "\<not> (\<forall>s \<in> set ss. s = Online)"
      "\<not> (\<forall>s \<in> set ss. s = Stopped \<or> s = Not_started)" "\<not> (\<exists>s \<in> set ss. s = Errored)" by auto
    then show ?thesis by (simp add: overall_of_def list_all_iff list_ex_iff)
  qed
  show "Online \<in> set ss" "Stopped \<in> set ss \<or> Not_started \<in> set ss" "Errored \<notin> set ss"
    if "overall_of ss = Partial"
    using overall_of_Partial[OF that] by simp_all
qed

text \<open>
  Claim C7. The overall status of a project is determined by the statuses of its present
  (configured and enabled) services alone: with no such service it is stopped; if all are
  online it is running; if all are stopped or not started it is stopped; if any is
  errored it is error; and it is partial in exactly the remaining case, online mixed with
  stopped or not started.
\<close>

theorem overall_status_from_services:
  assumes "get_project_status out_fe out_be reg n = Inr (Some ps)"
  shows "\<exists>p ss. get_project reg n = Some p \<and>
           ss = present_statuses (frontend_status ps) (backend_status ps) \<and>
           (frontend_status ps \<noteq> None) = (case frontend p of None \<Rightarrow> False | Some c \<Rightarrow> enabled c) \<and>
           (backend_status ps \<noteq> None) = (case backend p of None \<Rightarrow> False | Some c \<Rightarrow> enabled c) \<and>
           (ss = [] \<longrightarrow> overall_status ps = All_stopped) \<and>
           (ss \<noteq> [] \<and> (\<forall>s \<in> set ss. s = Online) \<longrightarrow> overall_status ps = Running) \<and>
           (ss \<noteq> [] \<and> (\<forall>s \<in> set ss. s = Stopped \<or> s = Not_started) \<longrightarrow>
              overall_status ps = All_stopped) \<and>
           (Errored \<in> set ss \<longrightarrow> overall_status ps = Error_state) \<and>
           (Online \<in> set ss \<and> (Stopped \<in> set ss \<or> Not_started \<in> set ss) \<and> Errored \<notin> set ss
              \<longrightarrow> overall_status ps = Partial) \<and>
           (overall_status ps = Partial \<longrightarrow>
              Online \<in> set ss \<and> (Stopped \<in> set ss \<or> Not_started \<in> set ss) \<and> Errored \<notin> set ss)"
proof -
  obtain p where p: "get_project reg n = Some p"
    using assms by (cases "get_project reg n") (simp_all add: get_project_status_def)
  obtain fs where fs: "service_if_enabled out_fe (n @ ''-fe'') (frontend p) = Inr fs"
    using assms p
    by (cases "service_if_enabled out_fe (n @ ''-fe'') (frontend p)")
       (simp_all add: get_project_status_def)
  obtain bs where bs: "service_if_enabled out_be (n @ ''-be'') (backend p) = Inr bs"
    using assms p fs
    by (cases "service_if_enabled out_be (n @ ''-be'') (backend p)")
       (simp_all add: get_project_status_def)
  have ps: "frontend_status ps = fs" "backend_status ps = bs"
      "overall_status ps = overall_of (present_statuses fs bs)"
    using assms p fs bs by (auto simp: get_project_status_def)
  have f: "(fs \<noteq> None) = (case frontend p of None \<Rightarrow> False | Some c \<Rightarrow> enabled c)"
    by (rule service_if_enabled_present[OF fs])
  have b: "(bs \<noteq> None) = (case backend p of None \<Rightarrow> False | Some c \<Rightarrow> enabled c)"
    by (rule service_if_enabled_present[OF bs])
  show ?thesis
    apply (rule exI[of _ p])
    apply (rule exI[of _ "present_statuses fs bs"])
    apply (simp only: ps p f b)
    using overall_of_cases[of "present_statuses fs bs"]
    apply blast
    done
qed

lemma status_demo:
  "get_project_status demo_jobs demo_jobs demo_registry ''app'' =
     Inr (Some \<lparr>status_name = ''app'', status_display_name = ''App'',
                frontend_status =
                  Some \<lparr>service_name = ''app-fe'', status = Online, pid = Some 4242,
                        service_port = Some 3000, uptime = Some ''0s'',
                        url = Some ''http://localhost:3000''\<rparr>,
                backend_status =
                  Some \<lparr>service_name = ''app-be'', status = Not_started, pid = None,
                        service_port = Some 8000, uptime = None,
                        url = Some ''http://localhost:8000''\<rparr>,
                overall_status = overall_of [Online, Not_started]\<rparr>)"
  by (simp add: get_project_status_def get_project_demo demo_project_def service_if_enabled_def
      get_service_status_def get_pm2_process_def get_pm2_list_def demo_jobs_def service_url_def
      truthy_port_def truthy_str_def format_uptime_def py_str_ports present_statuses_def
      py_str_def str_nat.simps digit_char_def)

theorem overall_status_from_services_witness:
  "overall_status
     (the (projr (get_project_status demo_jobs demo_jobs demo_registry ''app''))) = Partial \<and>
   present_statuses
     (frontend_status (the (projr (get_project_status demo_jobs demo_jobs demo_registry ''app''))))
     (backend_status (the (projr (get_project_status demo_jobs demo_jobs demo_registry ''app'')))) =
     [Online, Not_started]"
  using overall_status_from_services[OF status_demo]
  by (auto simp: status_demo present_statuses_def)

end
